theory Spec2Isabelle
  imports Complex_Main "HOL-Library.Sublist"
begin

section \<open>The audio stress analyzer page script\<close>

text \<open>
  The script \<^verbatim>\<open>analyzer/static/analyzer/js/script.js\<close> wires a file picker, a drop zone and
  an "analyze" button to one endpoint, and renders the score the endpoint returns. The
  development below embeds the script as functions on an explicit page state: every
  DOM property the script writes is a field, every \<^verbatim>\<open>alert\<close>, \<^verbatim>\<open>console.error\<close>,
  \<^verbatim>\<open>fetch\<close> and \<^verbatim>\<open>setTimeout\<close> is logged in the state, and every exception is a value.
\<close>

subsection \<open>JavaScript numbers\<close>

text \<open>
  A Number is an IEEE 754 double. A finite double is kept as the rational it denotes
  (\<open>Fin\<close>); the two zeros are one value, which nothing in the script tells apart
  (\<^verbatim>\<open>-0 < 0.3\<close>, \<^verbatim>\<open>(-0).toFixed(2)\<close> and \<^verbatim>\<open>`${-0 * 100}`\<close> are those of \<^verbatim>\<open>0\<close>).
\<close>

datatype jsnum = Fin rat | PInf | NInf | NaN

text \<open>The number of digits of a positive integer \<open>a\<close> in base \<open>b\<close>.\<close>

function ndigits :: "int \<Rightarrow> int \<Rightarrow> int" where
  "ndigits b a = (if 0 < a \<and> 1 < b then ndigits b (a div b) + 1 else 0)"
  by pat_completeness auto
termination
  by (relation "measure (\<lambda>(b, a). nat a)") (auto simp: int_div_less_self pos_imp_zdiv_nonneg_iff)

declare ndigits.simps [simp del]

text \<open>\<open>ilog b x\<close> is the integer \<open>e\<close> with \<open>b ^ e \<le> x < b ^ (e + 1)\<close>, for \<open>x > 0\<close>.\<close>

definition ilog :: "int \<Rightarrow> rat \<Rightarrow> int" where
  "ilog b x =
     (let (p, q) = quotient_of x;
          e = ndigits b p - ndigits b q
      in if x < power_int (of_int b) e then e - 1 else e)"

definition round_half_even :: "rat \<Rightarrow> int" where
  "round_half_even m =
     (let f = \<lfloor>m\<rfloor>; d = m - of_int f
      in if d < 1 / 2 then f
         else if 1 / 2 < d then f + 1
         else if even f then f else f + 1)"

text \<open>
  Rounding a rational to the nearest double, ties to even: 53 significant bits down to
  the exponent \<open>-1022\<close>, the fixed quantum \<open>2 ^ -1074\<close> below, infinity from \<open>2 ^ 1024\<close> on.
\<close>

definition js_round :: "rat \<Rightarrow> jsnum" where
  "js_round x =
     (if x = 0 then Fin 0
      else
        let a = \<bar>x\<bar>;
            e = max (ilog 2 a) (- 1022);
            q = power_int 2 (e - 52);
            r = of_int (round_half_even (a / q)) * q
        in if power_int 2 1024 \<le> r then (if 0 < x then PInf else NInf)
           else Fin (if 0 < x then r else - r))"

definition js_sgn :: "jsnum \<Rightarrow> int" where
  "js_sgn x = (case x of Fin r \<Rightarrow> (if r < 0 then - 1 else if r = 0 then 0 else 1)
                 | PInf \<Rightarrow> 1 | NInf \<Rightarrow> - 1 | NaN \<Rightarrow> 0)"

text \<open>The operator \<^verbatim>\<open>*\<close> on two Numbers.\<close>

definition js_times :: "jsnum \<Rightarrow> jsnum \<Rightarrow> jsnum" where
  "js_times x y =
     (case (x, y) of
        (NaN, _) \<Rightarrow> NaN
      | (_, NaN) \<Rightarrow> NaN
      | (Fin a, Fin b) \<Rightarrow> js_round (a * b)
      | _ \<Rightarrow> (let s = js_sgn x * js_sgn y
              in if s = 0 then NaN else if 0 < s then PInf else NInf))"

text \<open>The operator \<^verbatim>\<open><\<close> on two Numbers: false as soon as one of them is NaN.\<close>

definition js_less :: "jsnum \<Rightarrow> jsnum \<Rightarrow> bool" where
  "js_less x y =
     (case (x, y) of
        (NaN, _) \<Rightarrow> False
      | (_, NaN) \<Rightarrow> False
      | (Fin a, Fin b) \<Rightarrow> a < b
      | (NInf, NInf) \<Rightarrow> False
      | (NInf, _) \<Rightarrow> True
      | (PInf, _) \<Rightarrow> False
      | (Fin a, PInf) \<Rightarrow> True
      | (Fin a, NInf) \<Rightarrow> False)"

text \<open>A decimal literal of the source, such as \<^verbatim>\<open>0.3\<close>, is the double nearest to it.\<close>

definition js_literal :: "rat \<Rightarrow> jsnum" where
  "js_literal x = js_round x"

subsection \<open>Numbers to strings\<close>

definition digit_char :: "int \<Rightarrow> char" where
  "digit_char d = char_of (48 + d)"

text \<open>The decimal digits of an integer that is not negative.\<close>

function digits :: "int \<Rightarrow> string" where
  "digits n = (if n < 10 then [digit_char n] else digits (n div 10) @ [digit_char (n mod 10)])"
  by pat_completeness auto
termination
  by (relation "measure nat") auto

declare digits.simps [simp del]

text \<open>
  \<^verbatim>\<open>Number::toString\<close>: the shortest decimal \<open>s * 10 ^ (n - k)\<close>, \<open>s\<close> of \<open>k\<close> digits, that
  reads back as the same double; among two of that length the nearer one, the even one
  at a tie. Seventeen digits always do for a double.
\<close>

definition digit_candidates :: "rat \<Rightarrow> int \<Rightarrow> nat \<Rightarrow> int list" where
  "digit_candidates x n k =
     (let u = power_int 10 (n - int k); lo = \<lfloor>x / u\<rfloor>
      in filter (\<lambda>s. js_round (of_int s * u) = Fin x) [lo, lo + 1])"

definition nearest_digits :: "rat \<Rightarrow> int \<Rightarrow> nat \<Rightarrow> int option" where
  "nearest_digits x n k =
     (let u = power_int 10 (n - int k)
      in case digit_candidates x n k of
           [] \<Rightarrow> None
         | [s] \<Rightarrow> Some s
         | s # t # _ \<Rightarrow>
             (let ds = \<bar>of_int s * u - x\<bar>; dt = \<bar>of_int t * u - x\<bar>
              in Some (if ds < dt then s else if dt < ds then t
                       else if even s then s else t)))"

primrec shortest_digits :: "nat \<Rightarrow> rat \<Rightarrow> int \<Rightarrow> nat \<Rightarrow> int \<times> nat" where
  "shortest_digits 0 x n k = (\<lfloor>x / power_int 10 (n - int k)\<rfloor>, k)"
| "shortest_digits (Suc fuel) x n k =
     (case nearest_digits x n k of
        Some s \<Rightarrow> (s, k)
      | None \<Rightarrow> shortest_digits fuel x n (Suc k))"

definition positive_to_string :: "rat \<Rightarrow> string" where
  "positive_to_string x =
     (let n0 = ilog 10 x + 1;
          (s0, k0) = shortest_digits 17 x n0 1;
          (s, k, n) = (if s0 = 10 ^ k0 then (1, 1, n0 + 1) else (s0, k0, n0));
          ds = digits s
      in if int k \<le> n \<and> n \<le> 21 then ds @ replicate (nat (n - int k)) CHR ''0''
         else if 0 < n \<and> n \<le> 21 then take (nat n) ds @ ''.'' @ drop (nat n) ds
         else if - 6 < n \<and> n \<le> 0 then ''0.'' @ replicate (nat (- n)) CHR ''0'' @ ds
         else
           let e = n - 1;
               ex = (if e < 0 then ''-'' else ''+'') @ digits \<bar>e\<bar>
           in if k = 1 then ds @ ''e'' @ ex
              else take 1 ds @ ''.'' @ drop 1 ds @ ''e'' @ ex)"

definition number_to_string :: "jsnum \<Rightarrow> string" where
  "number_to_string x =
     (case x of
        NaN \<Rightarrow> ''NaN''
      | PInf \<Rightarrow> ''Infinity''
      | NInf \<Rightarrow> ''-Infinity''
      | Fin r \<Rightarrow>
          (if r = 0 then ''0''
           else if r < 0 then ''-'' @ positive_to_string (- r)
           else positive_to_string r))"

text \<open>
  \<^verbatim>\<open>Number.prototype.toFixed(f)\<close>: the integer \<open>n\<close> with \<open>n / 10 ^ f\<close> nearest to the
  magnitude (the larger one at a tie), padded to at least \<open>f + 1\<close> digits, with the point
  before the last \<open>f\<close>; a value that is not finite, or of magnitude \<open>10 ^ 21\<close> or more, is
  printed by \<^verbatim>\<open>Number::toString\<close>.
\<close>

definition insert_point :: "nat \<Rightarrow> string \<Rightarrow> string" where
  "insert_point f m0 =
     (let m = replicate (f + 1 - length m0) CHR ''0'' @ m0;
          k = length m
      in if f = 0 then m else take (k - f) m @ ''.'' @ drop (k - f) m)"

definition toFixed :: "nat \<Rightarrow> jsnum \<Rightarrow> string" where
  "toFixed f x =
     (case x of
        Fin r \<Rightarrow>
          (if 10 ^ 21 \<le> \<bar>r\<bar> then number_to_string x
           else (if r < 0 then ''-'' else [])
                @ insert_point f (digits \<lfloor>\<bar>r\<bar> * 10 ^ f + 1 / 2\<rfloor>))
      | _ \<Rightarrow> number_to_string x)"

subsection \<open>Strings\<close>

text \<open>
  A string is a list of code units, here those below 256. The script's regular
  expressions and \<^verbatim>\<open>startsWith\<close> compare code units, and \<^verbatim>\<open>\w\<close> is the ASCII class
  \<^verbatim>\<open>[A-Za-z0-9_]\<close>, so every other code unit is one more character that is not a word
  character.
\<close>

definition code_unit :: "char \<Rightarrow> int" where
  "code_unit c = of_char c"

definition is_digit :: "char \<Rightarrow> bool" where
  "is_digit c = (48 \<le> code_unit c \<and> code_unit c \<le> 57)"

definition is_lower :: "char \<Rightarrow> bool" where
  "is_lower c = (97 \<le> code_unit c \<and> code_unit c \<le> 122)"

definition is_upper :: "char \<Rightarrow> bool" where
  "is_upper c = (65 \<le> code_unit c \<and> code_unit c \<le> 90)"

definition is_word_char :: "char \<Rightarrow> bool" where
  "is_word_char c = (is_digit c \<or> is_lower c \<or> is_upper c \<or> c = CHR ''_'')"

text \<open>\<^verbatim>\<open>l.toUpperCase()\<close> for a string \<open>l\<close> of one word character.\<close>

definition toUpperCase :: "char \<Rightarrow> char" where
  "toUpperCase c = (if is_lower c then char_of (code_unit c - 32) else c)"

text \<open>\<^verbatim>\<open>feature.replace(/_/g, ' ')\<close>\<close>

definition replace_underscores :: "string \<Rightarrow> string" where
  "replace_underscores s = map (\<lambda>c. if c = CHR ''_'' then CHR '' '' else c) s"

text \<open>
  \<^verbatim>\<open>.replace(/\b\w/g, l => l.toUpperCase())\<close>: \<^verbatim>\<open>\b\w\<close> matches a word character that
  the start of the string or a character that is not a word character comes before.
  The flag says whether the character before is a word character.
\<close>

fun capitalize_words :: "bool \<Rightarrow> string \<Rightarrow> string" where
  "capitalize_words prev [] = []"
| "capitalize_words prev (c # cs) =
     (if is_word_char c \<and> \<not> prev then toUpperCase c else c)
       # capitalize_words (is_word_char c) cs"

definition displayName :: "string \<Rightarrow> string" where
  "displayName feature = capitalize_words False (replace_underscores feature)"

subsection \<open>Strings to numbers\<close>

text \<open>
  \<^verbatim>\<open>StringToNumber\<close>, which \<^verbatim>\<open>contribution * 100\<close> applies to a contribution that is a
  string: white space trimmed, the empty string is \<open>0\<close>, then a binary, octal or
  hexadecimal integer without sign, or a signed decimal literal or \<^verbatim>\<open>Infinity\<close>;
  anything else is NaN.
\<close>

definition is_space :: "char \<Rightarrow> bool" where
  "is_space c = (code_unit c \<in> {9, 10, 11, 12, 13, 32, 160})"

definition trim :: "string \<Rightarrow> string" where
  "trim s = rev (dropWhile is_space (rev (dropWhile is_space s)))"

definition radix_digit :: "char \<Rightarrow> int" where
  "radix_digit c =
     (if is_digit c then code_unit c - 48
      else if is_lower c then code_unit c - 87
      else if is_upper c then code_unit c - 55
      else 36)"

definition digits_value :: "int \<Rightarrow> string \<Rightarrow> int" where
  "digits_value b s = foldl (\<lambda>a c. a * b + radix_digit c) 0 s"

definition parse_radix :: "int \<Rightarrow> string \<Rightarrow> jsnum" where
  "parse_radix b s =
     (if s \<noteq> [] \<and> list_all (\<lambda>c. radix_digit c < b) s
      then js_round (of_int (digits_value b s)) else NaN)"

definition parse_exponent :: "string \<Rightarrow> int option" where
  "parse_exponent s =
     (case s of
        [] \<Rightarrow> Some 0
      | c # t \<Rightarrow>
          if c = CHR ''e'' \<or> c = CHR ''E'' then
            (let (neg, ds) = (case t of
                                d # u \<Rightarrow> if d = CHR ''-'' then (True, u)
                                         else if d = CHR ''+'' then (False, u)
                                         else (False, t)
                              | [] \<Rightarrow> (False, t))
             in if ds \<noteq> [] \<and> list_all is_digit ds
                then Some (if neg then - digits_value 10 ds else digits_value 10 ds)
                else None)
          else None)"

definition parse_decimal :: "string \<Rightarrow> jsnum" where
  "parse_decimal s =
     (if s = ''Infinity'' then PInf
      else
        let ip = takeWhile is_digit s;
            r1 = dropWhile is_digit s;
            (fp, r2) = (case r1 of
                          [] \<Rightarrow> ([], r1)
                        | c # t \<Rightarrow> if c = CHR ''.''
                                   then (takeWhile is_digit t, dropWhile is_digit t)
                                   else ([], r1))
        in if ip = [] \<and> fp = [] then NaN
           else case parse_exponent r2 of
                  None \<Rightarrow> NaN
                | Some e \<Rightarrow>
                    js_round (of_int (digits_value 10 (ip @ fp))
                              * power_int 10 (e - int (length fp))))"

definition js_negate :: "jsnum \<Rightarrow> jsnum" where
  "js_negate x = (case x of Fin r \<Rightarrow> Fin (- r) | PInf \<Rightarrow> NInf | NInf \<Rightarrow> PInf | NaN \<Rightarrow> NaN)"

definition string_to_number :: "string \<Rightarrow> jsnum" where
  "string_to_number s =
     (let t = trim s
      in if t = [] then Fin 0
         else if take 2 t = ''0x'' \<or> take 2 t = ''0X'' then parse_radix 16 (drop 2 t)
         else if take 2 t = ''0o'' \<or> take 2 t = ''0O'' then parse_radix 8 (drop 2 t)
         else if take 2 t = ''0b'' \<or> take 2 t = ''0B'' then parse_radix 2 (drop 2 t)
         else if take 1 t = ''-'' then js_negate (parse_decimal (drop 1 t))
         else if take 1 t = ''+'' then parse_decimal (drop 1 t)
         else parse_decimal t)"

subsection \<open>Values of a parsed JSON body\<close>

datatype js_error = TypeError | SyntaxError

datatype jsval =
    JUndefined
  | JNull
  | JBool bool
  | JNum jsnum
  | JStr string
  | JArr "jsval list"
  | JObj "(string \<times> jsval) list"

text \<open>
  \<open>JObj\<close> lists an object's own properties in the order of their creation, each key
  once. \<^verbatim>\<open>JSON.parse\<close> makes plain data only: no value is a function, an array has
  its indices and nothing else, and \<open>JUndefined\<close> is what reading an absent property
  gives.
\<close>

text \<open>
  \<^verbatim>\<open>data.p\<close>, for the names the script reads (\<^verbatim>\<open>success\<close>, \<^verbatim>\<open>score\<close>, \<^verbatim>\<open>features\<close>,
  \<^verbatim>\<open>errors\<close>, \<^verbatim>\<open>error\<close>), which no prototype defines: reading from \<^verbatim>\<open>null\<close> throws,
  an object gives its own property, every other value gives \<^verbatim>\<open>undefined\<close>.
\<close>

definition js_get :: "jsval \<Rightarrow> string \<Rightarrow> js_error + jsval" where
  "js_get v p =
     (case v of
        JUndefined \<Rightarrow> Inl TypeError
      | JNull \<Rightarrow> Inl TypeError
      | JObj kvs \<Rightarrow> Inr (case map_of kvs p of Some x \<Rightarrow> x | None \<Rightarrow> JUndefined)
      | _ \<Rightarrow> Inr JUndefined)"

definition truthy :: "jsval \<Rightarrow> bool" where
  "truthy v =
     (case v of
        JUndefined \<Rightarrow> False
      | JNull \<Rightarrow> False
      | JBool b \<Rightarrow> b
      | JNum n \<Rightarrow> (case n of Fin r \<Rightarrow> r \<noteq> 0 | NaN \<Rightarrow> False | _ \<Rightarrow> True)
      | JStr s \<Rightarrow> s \<noteq> []
      | _ \<Rightarrow> True)"

text \<open>\<^verbatim>\<open>a || b\<close>\<close>

definition js_or :: "jsval \<Rightarrow> jsval \<Rightarrow> jsval" where
  "js_or a b = (if truthy a then a else b)"

fun join_comma :: "string list \<Rightarrow> string" where
  "join_comma [] = []"
| "join_comma [s] = s"
| "join_comma (s # t # ss) = s @ '','' @ join_comma (t # ss)"

text \<open>
  \<^verbatim>\<open>Array.prototype.join\<close> over the elements and their strings: \<^verbatim>\<open>null\<close> and
  \<^verbatim>\<open>undefined\<close> give the empty string, the first element that throws ends the call.
\<close>

fun element_strings :: "jsval list \<Rightarrow> (js_error + string) list \<Rightarrow> js_error + string list" where
  "element_strings (v # vs) (r # rs) =
     (case (case v of JNull \<Rightarrow> Inr [] | JUndefined \<Rightarrow> Inr [] | _ \<Rightarrow> r) of
        Inl e \<Rightarrow> Inl e
      | Inr s \<Rightarrow> (case element_strings vs rs of Inl e \<Rightarrow> Inl e | Inr ss \<Rightarrow> Inr (s # ss)))"
| "element_strings _ _ = Inr []"

text \<open>
  \<^verbatim>\<open>ToString\<close>. An array is joined. An object has \<^verbatim>\<open>Object.prototype.toString\<close> unless
  it has a property \<^verbatim>\<open>toString\<close> of its own, which is not a function: then neither
  \<^verbatim>\<open>toString\<close> nor \<^verbatim>\<open>valueOf\<close> gives a primitive, and the conversion throws.
\<close>

primrec js_to_string :: "jsval \<Rightarrow> js_error + string" where
  "js_to_string JUndefined = Inr ''undefined''"
| "js_to_string JNull = Inr ''null''"
| "js_to_string (JBool b) = Inr (if b then ''true'' else ''false'')"
| "js_to_string (JNum n) = Inr (number_to_string n)"
| "js_to_string (JStr s) = Inr s"
| "js_to_string (JArr vs) =
     (case element_strings vs (map js_to_string vs) of
        Inl e \<Rightarrow> Inl e
      | Inr ss \<Rightarrow> Inr (join_comma ss))"
| "js_to_string (JObj kvs) =
     (if ''toString'' \<in> set (map fst kvs) then Inl TypeError
      else Inr ''[object Object]'')"

text \<open>\<^verbatim>\<open>ToNumber\<close>, which \<^verbatim>\<open>*\<close> applies to its operands.\<close>

definition js_to_number :: "jsval \<Rightarrow> js_error + jsnum" where
  "js_to_number v =
     (case v of
        JUndefined \<Rightarrow> Inr NaN
      | JNull \<Rightarrow> Inr (Fin 0)
      | JBool b \<Rightarrow> Inr (Fin (if b then 1 else 0))
      | JNum n \<Rightarrow> Inr n
      | JStr s \<Rightarrow> Inr (string_to_number s)
      | _ \<Rightarrow> (case js_to_string v of
                Inl e \<Rightarrow> Inl e
              | Inr s \<Rightarrow> Inr (string_to_number s)))"

text \<open>
  The order of \<^verbatim>\<open>Object.entries\<close> over own properties: the keys that are array indices
  (canonical decimal numerals up to \<open>2 ^ 32 - 2\<close>) first, ascending, then every other
  key in the order of creation.
\<close>

definition is_array_index :: "string \<Rightarrow> bool" where
  "is_array_index k =
     (k \<noteq> [] \<and> list_all is_digit k \<and> (k = ''0'' \<or> take 1 k \<noteq> ''0'')
      \<and> digits_value 10 k \<le> 4294967294)"

definition own_property_order :: "(string \<times> 'a) list \<Rightarrow> (string \<times> 'a) list" where
  "own_property_order kvs =
     sort_key (\<lambda>kv. digits_value 10 (fst kv)) (filter (\<lambda>kv. is_array_index (fst kv)) kvs)
     @ filter (\<lambda>kv. \<not> is_array_index (fst kv)) kvs"

definition index_keys :: "nat \<Rightarrow> string list" where
  "index_keys n = map (\<lambda>i. digits (int i)) [0..<n]"

definition Object_entries :: "jsval \<Rightarrow> js_error + (string \<times> jsval) list" where
  "Object_entries v =
     (case v of
        JUndefined \<Rightarrow> Inl TypeError
      | JNull \<Rightarrow> Inl TypeError
      | JObj kvs \<Rightarrow> Inr (own_property_order kvs)
      | JArr vs \<Rightarrow> Inr (zip (index_keys (length vs)) vs)
      | JStr s \<Rightarrow> Inr (zip (index_keys (length s)) (map (\<lambda>c. JStr [c]) s))
      | _ \<Rightarrow> Inr [])"

subsection \<open>The page state\<close>

record file_obj =
  file_name :: string
  file_type :: string
  file_bytes :: "nat list"

datatype form_value = FormFile file_obj | FormText string

record request =
  req_url :: string
  req_method :: string
  req_body :: "(string \<times> form_value) list"

text \<open>A child of the features container: the \<^verbatim>\<open>div\<close> the render loop appends.\<close>

record feature_el =
  el_className :: string
  el_innerHTML :: string

text \<open>
  One field for the module variable \<^verbatim>\<open>currentFile\<close>, one for each property of an
  element that the script writes, two for what it reads from the page (the form's
  \<^verbatim>\<open>action\<close> and the token read at start-up), and the effects: the alerts shown, the
  errors logged, the requests issued by \<^verbatim>\<open>fetch\<close>, how many of them have not settled,
  the callbacks \<^verbatim>\<open>setTimeout\<close> holds, and the calls of \<^verbatim>\<open>fileInput.click()\<close>. The
  markup of the page is not part of the script, so no initial value is fixed but
  \<^verbatim>\<open>currentFile = null\<close>.
\<close>

record page =
  currentFile :: "file_obj option"
  selectedFile_textContent :: string
  analyzeBtn_disabled :: bool
  loading_display :: string
  resultContainer_display :: string
  scoreValue_textContent :: string
  scoreFill_width :: string
  scoreInterpretation_textContent :: string
  featuresContainer_children :: "feature_el list"
  dropZone_background :: string
  dropZone_borderColor :: string
  uploadForm_action :: string
  csrfToken :: string
  alerts :: "string list"
  console_errors :: "js_error list"
  requests :: "request list"
  pending :: nat
  timers :: nat
  fileInput_clicks :: nat

text \<open>How a handler ends: it returns, or it throws.\<close>

datatype outcome = Done | Thrown js_error

definition alert :: "string \<Rightarrow> page \<Rightarrow> page" where
  "alert msg s = s\<lparr>alerts := alerts s @ [msg]\<rparr>"

subsection \<open>Selection\<close>

definition handleFileSelection :: "file_obj \<Rightarrow> page \<Rightarrow> page" where
  "handleFileSelection f s =
     (if \<not> prefix ''audio/'' (file_type f) then alert ''Please upload an audio file'' s
      else s\<lparr>currentFile := Some f,
             selectedFile_textContent := ''Selected file: '' @ file_name f,
             analyzeBtn_disabled := False\<rparr>)"

subsection \<open>Rendering\<close>

text \<open>The template literal assigned to \<^verbatim>\<open>featureEl.innerHTML\<close>, with its line breaks.\<close>

definition feature_markup :: "string \<Rightarrow> string \<Rightarrow> string \<Rightarrow> string" where
  \<open>feature_markup name percent width =
     ''\<newline>                <div class="feature-name">\<newline>                    <span>''
     @ name
     @ ''</span>\<newline>                    <span>''
     @ percent
     @ ''%</span>\<newline>                </div>\<newline>                <div class="feature-bar">\<newline>                    <div class="feature-fill" style="width: ''
     @ width
     @ ''%"></div>\<newline>                </div>\<newline>            ''\<close>

text \<open>
  The element \<^verbatim>\<open>featureEl\<close> for a feature and its contribution as a Number: the
  humanized name, \<^verbatim>\<open>(contribution * 100).toFixed(1)\<close> and \<^verbatim>\<open>contribution * 100\<close> in the
  template.
\<close>

definition feature_element :: "string \<Rightarrow> jsnum \<Rightarrow> feature_el" where
  "feature_element feature c =
     \<lparr>el_className = ''feature'',
      el_innerHTML =
        feature_markup (displayName feature)
          (toFixed 1 (js_times c (Fin 100)))
          (number_to_string (js_times c (Fin 100)))\<rparr>"

text \<open>
  The body of the loop over the entries. \<^verbatim>\<open>contribution * 100\<close> converts the
  contribution to a Number, which can throw; the element is appended after the
  template has been evaluated.
\<close>

fun append_features :: "(string \<times> jsval) list \<Rightarrow> page \<Rightarrow> page \<times> outcome" where
  "append_features [] s = (s, Done)"
| "append_features ((feature, contribution) # rest) s =
     (case js_to_number contribution of
        Inl e \<Rightarrow> (s, Thrown e)
      | Inr c \<Rightarrow>
          append_features rest
            (s\<lparr>featuresContainer_children :=
                 featuresContainer_children s @ [feature_element feature c]\<rparr>))"

text \<open>The chain of comparisons that picks the interpretation of a score.\<close>

definition stress_label :: "jsnum \<Rightarrow> string" where
  "stress_label score =
     (if js_less score (js_literal (3 / 10)) then ''Low Stress''
      else if js_less score (js_literal (6 / 10)) then ''Moderate Stress''
      else ''High Stress'')"

text \<open>
  Assigning to \<^verbatim>\<open>style.width\<close> sets the property when the text is a width: a percentage
  that is not negative. The assignment of \<^verbatim>\<open>NaN%\<close>, \<^verbatim>\<open>Infinity%\<close> or a negative
  percentage leaves the property as it was.
\<close>

definition set_width_percent :: "jsnum \<Rightarrow> string \<Rightarrow> string" where
  "set_width_percent p old =
     (case p of
        Fin r \<Rightarrow> if 0 \<le> r then number_to_string p @ ''%'' else old
      | _ \<Rightarrow> old)"

text \<open>
  \<^verbatim>\<open>updateResults(score, features)\<close> on any two values. \<^verbatim>\<open>score.toFixed(2)\<close> throws
  unless the score is a Number (no other JSON value has a callable \<^verbatim>\<open>toFixed\<close>), before
  anything is written; \<^verbatim>\<open>Object.entries(features)\<close> throws on \<^verbatim>\<open>null\<close> and
  \<^verbatim>\<open>undefined\<close>, after the score is written and the container is emptied.
\<close>

definition updateResults :: "jsval \<Rightarrow> jsval \<Rightarrow> page \<Rightarrow> page \<times> outcome" where
  "updateResults score features s =
     (case score of
        JNum n \<Rightarrow>
          let s1 = s\<lparr>scoreValue_textContent := toFixed 2 n\<rparr>;
              s2 = s1\<lparr>scoreFill_width :=
                        set_width_percent (js_times n (Fin 100)) (scoreFill_width s1)\<rparr>;
              s3 = s2\<lparr>scoreInterpretation_textContent := stress_label n\<rparr>;
              s4 = s3\<lparr>featuresContainer_children := []\<rparr>
          in (case Object_entries features of
                Inl e \<Rightarrow> (s4, Thrown e)
              | Inr entries \<Rightarrow>
                  (case append_features entries s4 of
                     (s5, Thrown e) \<Rightarrow> (s5, Thrown e)
                   | (s5, Done) \<Rightarrow>
                       (s5\<lparr>resultContainer_display := ''block'',
                           timers := timers s5 + 1\<rparr>, Done)))
      | _ \<Rightarrow> (s, Thrown TypeError))"

text \<open>
  The callback of \<^verbatim>\<open>setTimeout\<close> assigns to every \<^verbatim>\<open>.feature-fill\<close> the width it
  already has: it takes one callback off the timers and writes nothing new.
\<close>

definition animate_bars :: "page \<Rightarrow> page" where
  "animate_bars s = s\<lparr>timers := timers s - 1\<rparr>"

subsection \<open>Submission\<close>

text \<open>
  The click handler of the analyze button, up to the call of \<^verbatim>\<open>fetch\<close>: the request is
  logged and stays pending until its response is handled.
\<close>

definition analyzeBtn_click :: "page \<Rightarrow> page" where
  "analyzeBtn_click s =
     (case currentFile s of
        None \<Rightarrow> s
      | Some f \<Rightarrow>
          s\<lparr>loading_display := ''block'',
            resultContainer_display := ''none'',
            analyzeBtn_disabled := True,
            requests := requests s @
              [\<lparr>req_url = uploadForm_action s, req_method = ''POST'',
                req_body = [(''file'', FormFile f),
                            (''csrfmiddlewaretoken'', FormText (csrfToken s))]\<rparr>],
            pending := pending s + 1\<rparr>)"

text \<open>
  What comes back: \<^verbatim>\<open>fetch\<close> rejects (no response), \<^verbatim>\<open>response.json()\<close> rejects (the
  body is not JSON), or the body parses to a value.
\<close>

datatype response = NetworkFailure | BodyNotJson | Body jsval

definition fetch_json :: "response \<Rightarrow> js_error + jsval" where
  "fetch_json r =
     (case r of
        NetworkFailure \<Rightarrow> Inl TypeError
      | BodyNotJson \<Rightarrow> Inl SyntaxError
      | Body data \<Rightarrow> Inr data)"

text \<open>The handler \<^verbatim>\<open>data => { ... }\<close>.\<close>

definition on_data :: "jsval \<Rightarrow> page \<Rightarrow> page \<times> outcome" where
  "on_data data s =
     (case js_get data ''success'' of
        Inl e \<Rightarrow> (s, Thrown e)
      | Inr success \<Rightarrow>
          if truthy success then
            (case js_get data ''score'' of
               Inl e \<Rightarrow> (s, Thrown e)
             | Inr score \<Rightarrow>
                 (case js_get data ''features'' of
                    Inl e \<Rightarrow> (s, Thrown e)
                  | Inr features \<Rightarrow> updateResults score features s))
          else
            (case js_get data ''errors'' of
               Inl e \<Rightarrow> (s, Thrown e)
             | Inr errors \<Rightarrow>
                 (case js_get data ''error'' of
                    Inl e \<Rightarrow> (s, Thrown e)
                  | Inr error \<Rightarrow>
                      (case js_to_string (js_or errors error) of
                         Inl e \<Rightarrow> (s, Thrown e)
                       | Inr m \<Rightarrow> (alert (''Error processing file: '' @ m) s, Done)))))"

text \<open>The handler of \<^verbatim>\<open>.catch\<close>.\<close>

definition on_error :: "js_error \<Rightarrow> page \<Rightarrow> page" where
  "on_error e s =
     alert ''An error occurred while processing the file.''
       (s\<lparr>console_errors := console_errors s @ [e]\<rparr>)"

text \<open>The handler of \<^verbatim>\<open>.finally\<close>.\<close>

definition on_finally :: "page \<Rightarrow> page" where
  "on_finally s = s\<lparr>loading_display := ''none'', analyzeBtn_disabled := False\<rparr>"

text \<open>
  The chain \<^verbatim>\<open>fetch(...).then(...).then(...).catch(...).finally(...)\<close> once the request
  has settled. A rejection skips the \<^verbatim>\<open>then\<close> handlers, \<^verbatim>\<open>catch\<close> turns a rejection
  into a fulfilment, \<^verbatim>\<open>finally\<close> runs in both cases and hands on what it was given.
  The second component is how the last promise of the chain settles.
\<close>

definition promise_chain :: "response \<Rightarrow> page \<Rightarrow> page \<times> outcome" where
  "promise_chain r s =
     (let (s1, o1) = (case fetch_json r of
                        Inl e \<Rightarrow> (s, Thrown e)
                      | Inr data \<Rightarrow> on_data data s);
          (s2, o2) = (case o1 of
                        Thrown e \<Rightarrow> (on_error e s1, Done)
                      | Done \<Rightarrow> (s1, Done))
      in (on_finally s2, o2))"

subsection \<open>Events\<close>

text \<open>
  What the page can receive. A change of the file input and a drop carry a list of
  files; a click on the analyze button reaches its handler only while the button is
  not disabled, since a disabled button dispatches no click; a response is handled
  only while a request is pending. \<^verbatim>\<open>e.preventDefault()\<close> acts on the event and
  writes nothing to the page, so the drag handlers show their two style assignments
  only.
\<close>

datatype event =
    BrowseClick
  | FileInputChange "file_obj list"
  | DragOver
  | DragLeave
  | Drop "file_obj list"
  | AnalyzeClick
  | Response response
  | Timeout

definition fire :: "event \<Rightarrow> page \<Rightarrow> page" where
  "fire ev s =
     (case ev of
        BrowseClick \<Rightarrow> s\<lparr>fileInput_clicks := fileInput_clicks s + 1\<rparr>
      | FileInputChange files \<Rightarrow>
          (case files of [] \<Rightarrow> s | f # _ \<Rightarrow> handleFileSelection f s)
      | DragOver \<Rightarrow> s\<lparr>dropZone_background := ''#e3f2fd'', dropZone_borderColor := ''#2196f3''\<rparr>
      | DragLeave \<Rightarrow> s\<lparr>dropZone_background := ''#f8f9fa'', dropZone_borderColor := ''#3498db''\<rparr>
      | Drop files \<Rightarrow>
          (let s1 = s\<lparr>dropZone_background := ''#f8f9fa'', dropZone_borderColor := ''#3498db''\<rparr>
           in case files of [] \<Rightarrow> s1 | f # _ \<Rightarrow> handleFileSelection f s1)
      | AnalyzeClick \<Rightarrow> if analyzeBtn_disabled s then s else analyzeBtn_click s
      | Response r \<Rightarrow>
          if pending s = 0 then s
          else (fst (promise_chain r s))\<lparr>pending := pending s - 1\<rparr>
      | Timeout \<Rightarrow> if timers s = 0 then s else animate_bars s)"

definition run :: "event list \<Rightarrow> page \<Rightarrow> page" where
  "run evs s = foldl (\<lambda>t ev. fire ev t) s evs"

subsection \<open>Concrete pages and files\<close>

text \<open>A page as it may load: nothing selected, the button disabled, nothing shown.\<close>

definition loaded_page :: page where
  "loaded_page =
     \<lparr>currentFile = None,
      selectedFile_textContent = ''No file selected'',
      analyzeBtn_disabled = True,
      loading_display = ''none'',
      resultContainer_display = ''none'',
      scoreValue_textContent = ''0.00'',
      scoreFill_width = ''0%'',
      scoreInterpretation_textContent = [],
      featuresContainer_children = [],
      dropZone_background = ''#f8f9fa'',
      dropZone_borderColor = ''#3498db'',
      uploadForm_action = ''/analyze/'',
      csrfToken = ''token'',
      alerts = [],
      console_errors = [],
      requests = [],
      pending = 0,
      timers = 0,
      fileInput_clicks = 0\<rparr>"

definition voice_wav :: file_obj where
  "voice_wav = \<lparr>file_name = ''voice.wav'', file_type = ''audio/wav'', file_bytes = [82, 73, 70, 70]\<rparr>"

definition talk_mp3 :: file_obj where
  "talk_mp3 = \<lparr>file_name = ''talk.mp3'', file_type = ''audio/mpeg'', file_bytes = [73, 68, 51]\<rparr>"

definition notes_txt :: file_obj where
  "notes_txt = \<lparr>file_name = ''notes.txt'', file_type = ''text/plain'', file_bytes = [104, 105]\<rparr>"


text \<open>The page with a request in flight: a file chosen, the button clicked.\<close>

definition in_flight_page :: page where
  "in_flight_page = run [FileInputChange [voice_wav], AnalyzeClick] loaded_page"


text \<open>
  The bodies \<^verbatim>\<open>{"success": true, "score": 0.75, "features": {"pitch_variance": 0.4}}\<close>,
  \<^verbatim>\<open>{"success": false, "error": "bad file"}\<close> and two more failures, one with both
  fields and one whose \<^verbatim>\<open>errors\<close> is the empty string.
\<close>

definition example_body :: jsval where
  "example_body =
     JObj [(''success'', JBool True), (''score'', JNum (js_literal (75 / 100))),
           (''features'', JObj [(''pitch_variance'', JNum (js_literal (4 / 10)))])]"

definition bad_file_body :: jsval where
  "bad_file_body = JObj [(''success'', JBool False), (''error'', JStr ''bad file'')]"




text \<open>A body that says success and has a score but no features.\<close>

definition no_features_body :: jsval where
  "no_features_body = JObj [(''success'', JBool True), (''score'', JNum (Fin (1 / 2)))]"

text \<open>The page after the first body has been rendered.\<close>

definition result_page :: page where
  "result_page = fire (Response (Body example_body)) in_flight_page"

text \<open>
  What the loop over the entries appends and how it ends, as a function of the entries
  alone: the elements up to the first contribution whose conversion throws.
\<close>

fun loop_result :: "(string \<times> jsval) list \<Rightarrow> feature_el list \<times> outcome" where
  "loop_result [] = ([], Done)"
| "loop_result ((feature, contribution) # rest) =
     (case js_to_number contribution of
        Inl e \<Rightarrow> ([], Thrown e)
      | Inr c \<Rightarrow> (feature_element feature c # fst (loop_result rest), snd (loop_result rest)))"

text \<open>A features object whose values are Numbers.\<close>

definition number_object :: "(string \<times> jsnum) list \<Rightarrow> jsval" where
  "number_object fs = JObj (map (\<lambda>kv. (fst kv, JNum (snd kv))) fs)"

section \<open>Properties\<close>

subsection \<open>Evaluating the concrete pages\<close>

lemma prefix_audio_voice: "prefix ''audio/'' (file_type voice_wav)"
  by (simp add: voice_wav_def)

lemma prefix_audio_talk: "prefix ''audio/'' (file_type talk_mp3)"
  by (simp add: talk_mp3_def)

lemma not_prefix_audio_notes: "\<not> prefix ''audio/'' (file_type notes_txt)"
  by (simp add: notes_txt_def)

lemma in_flight_page_eq:
  "in_flight_page =
     loaded_page\<lparr>currentFile := Some voice_wav,
                 selectedFile_textContent := ''Selected file: voice.wav'',
                 analyzeBtn_disabled := True,
                 loading_display := ''block'',
                 resultContainer_display := ''none'',
                 requests := [\<lparr>req_url = ''/analyze/'', req_method = ''POST'',
                               req_body = [(''file'', FormFile voice_wav),
                                           (''csrfmiddlewaretoken'', FormText ''token'')]\<rparr>],
                 pending := 1\<rparr>"
  using prefix_audio_voice
  by (simp add: in_flight_page_def run_def fire_def handleFileSelection_def
      analyzeBtn_click_def loaded_page_def)
    (simp add: voice_wav_def)

subsection \<open>Selection\<close>

text \<open>
  C5. A candidate whose media type does not start with \<^verbatim>\<open>audio/\<close> is rejected with the
  alert "Please upload an audio file", and that alert is all that happens: the held
  file, the label of the selected file and the enablement of the analyze button are
  what they were.
\<close>

theorem rejected_selection_keeps_state:
  assumes "\<not> prefix ''audio/'' (file_type f)"
  shows "handleFileSelection f s = s\<lparr>alerts := alerts s @ [''Please upload an audio file'']\<rparr>
       \<and> currentFile (handleFileSelection f s) = currentFile s
       \<and> selectedFile_textContent (handleFileSelection f s) = selectedFile_textContent s
       \<and> analyzeBtn_disabled (handleFileSelection f s) = analyzeBtn_disabled s"
  using assms by (simp add: handleFileSelection_def alert_def)

theorem rejected_selection_keeps_state_witness:
  "\<not> prefix ''audio/'' (file_type notes_txt)
   \<and> currentFile (handleFileSelection notes_txt in_flight_page) = Some voice_wav
   \<and> selectedFile_textContent (handleFileSelection notes_txt in_flight_page)
       = ''Selected file: voice.wav''
   \<and> analyzeBtn_disabled (handleFileSelection notes_txt in_flight_page)
   \<and> alerts (handleFileSelection notes_txt in_flight_page) = [''Please upload an audio file'']"
  using rejected_selection_keeps_state [OF not_prefix_audio_notes, of in_flight_page]
    not_prefix_audio_notes
  by (simp add: in_flight_page_eq loaded_page_def)

text \<open>
  C8. An accepted candidate enables the analyze button whatever the state is: the
  assignment reads nothing, so it also happens while a request is pending, and it
  leaves the pending request pending.
\<close>

theorem accepted_selection_enables_button:
  assumes "prefix ''audio/'' (file_type f)"
  shows "\<not> analyzeBtn_disabled (handleFileSelection f s)
       \<and> pending (handleFileSelection f s) = pending s
       \<and> \<not> analyzeBtn_disabled (handleFileSelection f (analyzeBtn_click s))
       \<and> pending (handleFileSelection f (analyzeBtn_click s)) = pending (analyzeBtn_click s)"
  using assms by (simp add: handleFileSelection_def)

theorem accepted_selection_enables_button_witness:
  "prefix ''audio/'' (file_type talk_mp3)
   \<and> pending in_flight_page = 1
   \<and> analyzeBtn_disabled in_flight_page
   \<and> \<not> analyzeBtn_disabled (handleFileSelection talk_mp3 in_flight_page)
   \<and> pending (handleFileSelection talk_mp3 in_flight_page) = 1"
  using accepted_selection_enables_button [OF prefix_audio_talk, of in_flight_page]
    prefix_audio_talk
  by (simp add: in_flight_page_eq loaded_page_def)

text \<open>
  C10. Selection writes neither what rendering writes nor what submission writes: the
  score text, the gauge width, the interpretation, the features container, the display
  of the result container and of the loading indicator, the requests and the pending
  count are unchanged by every call; an accepted call changes the held file, the label
  and the disabled flag of the button, and nothing else.
\<close>

theorem selection_frame:
  "scoreValue_textContent (handleFileSelection f s) = scoreValue_textContent s
   \<and> scoreFill_width (handleFileSelection f s) = scoreFill_width s
   \<and> scoreInterpretation_textContent (handleFileSelection f s) = scoreInterpretation_textContent s
   \<and> featuresContainer_children (handleFileSelection f s) = featuresContainer_children s
   \<and> resultContainer_display (handleFileSelection f s) = resultContainer_display s
   \<and> loading_display (handleFileSelection f s) = loading_display s
   \<and> requests (handleFileSelection f s) = requests s
   \<and> pending (handleFileSelection f s) = pending s
   \<and> (prefix ''audio/'' (file_type f) \<longrightarrow>
        handleFileSelection f s
          = s\<lparr>currentFile := Some f,
              selectedFile_textContent := ''Selected file: '' @ file_name f,
              analyzeBtn_disabled := False\<rparr>)"
  by (simp add: handleFileSelection_def alert_def)

theorem selection_frame_witness:
  "prefix ''audio/'' (file_type talk_mp3)
   \<and> handleFileSelection talk_mp3 in_flight_page
       = in_flight_page\<lparr>currentFile := Some talk_mp3,
                         selectedFile_textContent := ''Selected file: talk.mp3'',
                         analyzeBtn_disabled := False\<rparr>
   \<and> loading_display (handleFileSelection talk_mp3 in_flight_page) = ''block''
   \<and> resultContainer_display (handleFileSelection talk_mp3 in_flight_page) = ''none''"
  using selection_frame [of talk_mp3 in_flight_page] prefix_audio_talk
  by (simp add: in_flight_page_eq loaded_page_def) (simp add: talk_mp3_def)

text \<open>
  C9, as the script has it. A change of the file input with no file does nothing at
  all. A drop with no file runs no validation, shows no alert and selects nothing, but
  it is not without effect: the handler has already put the drop zone back to its
  resting colours, which is all that it changes.
\<close>

theorem empty_file_list:
  "fire (FileInputChange []) s = s
   \<and> fire (Drop []) s
       = s\<lparr>dropZone_background := ''#f8f9fa'', dropZone_borderColor := ''#3498db''\<rparr>"
  by (simp add: fire_def)

text \<open>
  The claim as stated, that a drop without files changes no UI state, fails on a drop
  zone that a drag has highlighted: the drop takes the highlight away.
\<close>

theorem empty_drop_counterexample:
  "dropZone_background (fire DragOver loaded_page) = ''#e3f2fd''
   \<and> dropZone_background (fire (Drop []) (fire DragOver loaded_page)) = ''#f8f9fa''
   \<and> fire (Drop []) (fire DragOver loaded_page) \<noteq> fire DragOver loaded_page"
proof -
  have a: "dropZone_background (fire DragOver loaded_page) = ''#e3f2fd''"
    by (simp add: fire_def)
  have b: "dropZone_background (fire (Drop []) (fire DragOver loaded_page)) = ''#f8f9fa''"
    by (simp add: fire_def)
  have "dropZone_background (fire (Drop []) (fire DragOver loaded_page))
        \<noteq> dropZone_background (fire DragOver loaded_page)"
    unfolding a b by simp
  then have "fire (Drop []) (fire DragOver loaded_page) \<noteq> fire DragOver loaded_page"
    by metis
  with a b show ?thesis by simp
qed

subsection \<open>Submission\<close>







subsection \<open>The render loop\<close>

lemma append_features_eq:
  "append_features es s
   = (s\<lparr>featuresContainer_children := featuresContainer_children s @ fst (loop_result es)\<rparr>,
      snd (loop_result es))"
  by (induction es arbitrary: s) (auto split: sum.splits)

lemma updateResults_number:
  "updateResults (JNum n) fe s =
     (case Object_entries fe of
        Inl e \<Rightarrow>
          (s\<lparr>scoreValue_textContent := toFixed 2 n,
             scoreFill_width := set_width_percent (js_times n (Fin 100)) (scoreFill_width s),
             scoreInterpretation_textContent := stress_label n,
             featuresContainer_children := []\<rparr>, Thrown e)
      | Inr es \<Rightarrow>
          (case snd (loop_result es) of
             Thrown e \<Rightarrow>
               (s\<lparr>scoreValue_textContent := toFixed 2 n,
                  scoreFill_width := set_width_percent (js_times n (Fin 100)) (scoreFill_width s),
                  scoreInterpretation_textContent := stress_label n,
                  featuresContainer_children := fst (loop_result es)\<rparr>, Thrown e)
           | Done \<Rightarrow>
               (s\<lparr>scoreValue_textContent := toFixed 2 n,
                  scoreFill_width := set_width_percent (js_times n (Fin 100)) (scoreFill_width s),
                  scoreInterpretation_textContent := stress_label n,
                  featuresContainer_children := fst (loop_result es),
                  resultContainer_display := ''block'',
                  timers := timers s + 1\<rparr>, Done)))"
  by (simp add: updateResults_def Let_def append_features_eq split: sum.splits outcome.splits)

lemma updateResults_not_number:
  assumes "\<forall>n. score \<noteq> JNum n"
  shows "updateResults score fe s = (s, Thrown TypeError)"
  using assms by (cases score) (simp_all add: updateResults_def)

lemma set_width_percent_twice:
  "set_width_percent p (set_width_percent p old) = set_width_percent p old"
  by (simp add: set_width_percent_def split: jsnum.splits)

lemma render_twice:
  "(fst (updateResults sc fe (fst (updateResults sc fe s))))\<lparr>timers := 0\<rparr>
     = (fst (updateResults sc fe s))\<lparr>timers := 0\<rparr>
   \<and> snd (updateResults sc fe (fst (updateResults sc fe s))) = snd (updateResults sc fe s)"
proof (cases "\<exists>n. sc = JNum n")
  case False
  then have "\<And>t. updateResults sc fe t = (t, Thrown TypeError)"
    using updateResults_not_number [of sc] by blast
  then show ?thesis by simp
next
  case True
  then obtain n where n: "sc = JNum n" by blast
  show ?thesis
    unfolding n updateResults_number
    by (simp add: set_width_percent_twice split: sum.splits outcome.splits)
qed

lemma own_property_order_no_index:
  assumes "list_all (\<lambda>kv. \<not> is_array_index (fst kv)) fs"
  shows "own_property_order fs = fs"
proof -
  have "filter (\<lambda>kv. is_array_index (fst kv)) fs = []"
    using assms by (induction fs) auto
  moreover have "filter (\<lambda>kv. \<not> is_array_index (fst kv)) fs = fs"
    using assms by (induction fs) auto
  ultimately show ?thesis by (simp add: own_property_order_def)
qed

lemma insort_key_map_values:
  "insort_key (\<lambda>kv. h (fst kv)) (fst x, g (snd x)) (map (\<lambda>kv. (fst kv, g (snd kv))) xs)
   = map (\<lambda>kv. (fst kv, g (snd kv))) (insort_key (\<lambda>kv. h (fst kv)) x xs)"
  by (induction xs) auto

lemma sort_key_map_values:
  "sort_key (\<lambda>kv. h (fst kv)) (map (\<lambda>kv. (fst kv, g (snd kv))) xs)
   = map (\<lambda>kv. (fst kv, g (snd kv))) (sort_key (\<lambda>kv. h (fst kv)) xs)"
  by (induction xs) (simp_all add: insort_key_map_values)

lemma own_property_order_map_values:
  "own_property_order (map (\<lambda>kv. (fst kv, g (snd kv))) fs)
   = map (\<lambda>kv. (fst kv, g (snd kv))) (own_property_order fs)"
  by (simp add: own_property_order_def filter_map comp_def sort_key_map_values)

lemma loop_result_numbers:
  "loop_result (map (\<lambda>kv. (fst kv, JNum (snd kv))) fs)
   = (map (\<lambda>kv. feature_element (fst kv) (snd kv)) fs, Done)"
  by (induction fs) (auto simp: js_to_number_def)

lemma length_own_property_order: "length (own_property_order fs) = length fs"
proof -
  have "length (filter (\<lambda>kv. is_array_index (fst kv)) fs)
        + length (filter (\<lambda>kv. \<not> is_array_index (fst kv)) fs) = length fs"
    by (rule sum_length_filter_compl)
  then show ?thesis by (simp add: own_property_order_def)
qed

lemma updateResults_typed:
  "updateResults (JNum n) (number_object fs) s =
     (s\<lparr>scoreValue_textContent := toFixed 2 n,
        scoreFill_width := set_width_percent (js_times n (Fin 100)) (scoreFill_width s),
        scoreInterpretation_textContent := stress_label n,
        featuresContainer_children :=
          map (\<lambda>kv. feature_element (fst kv) (snd kv)) (own_property_order fs),
        resultContainer_display := ''block'',
        timers := timers s + 1\<rparr>, Done)"
  by (simp add: updateResults_number number_object_def Object_entries_def
      own_property_order_map_values loop_result_numbers)

subsection \<open>Rounding stays finite on the gauge's range\<close>

lemma ndigits_step: "0 < a \<Longrightarrow> ndigits 2 a = ndigits 2 (a div 2) + 1"
  by (subst ndigits.simps) simp

lemma ndigits_one: "ndigits 2 1 = 1"
  by (subst ndigits.simps, simp, subst ndigits.simps, simp)

lemma ndigits2_bounds:
  "0 < a \<Longrightarrow> 0 < ndigits 2 a \<and> 2 ^ nat (ndigits 2 a - 1) \<le> a \<and> a < 2 ^ nat (ndigits 2 a)"
proof (induction "nat a" arbitrary: a rule: less_induct)
  case less
  show ?case
  proof (cases "a = 1")
    case True
    then show ?thesis by (simp add: ndigits_one)
  next
    case False
    with less.prems have a2: "2 \<le> a" by simp
    then have h: "0 < a div 2" "nat (a div 2) < nat a" by auto
    define k where "k = ndigits 2 (a div 2)"
    from less.hyps [OF h(2) h(1)] have k: "0 < k" "2 ^ nat (k - 1) \<le> a div 2" "a div 2 < 2 ^ nat k"
      by (simp_all add: k_def)
    have nd: "ndigits 2 a = k + 1" using less.prems by (simp add: ndigits_step k_def)
    have nk: "nat k = Suc (nat (k - 1))" using k(1) by simp
    have "(2::int) ^ nat k = 2 * 2 ^ nat (k - 1)" by (subst nk) simp
    also have "\<dots> \<le> 2 * (a div 2)" using k(2) by simp
    also have "\<dots> \<le> a" by simp
    finally have lo: "2 ^ nat k \<le> a" .
    have "a < 2 * (a div 2) + 2" by presburger
    also have "\<dots> \<le> 2 * 2 ^ nat k" using k(3) by simp
    finally have hi: "a < 2 ^ Suc (nat k)" by simp
    have "nat (k + 1) = Suc (nat k)" using k(1) by simp
    with lo hi nd k(1) show ?thesis by simp
  qed
qed

lemma round_half_even_bounds:
  "0 \<le> m \<Longrightarrow> 0 \<le> round_half_even m \<and> of_int (round_half_even m) \<le> m + 1 / 2"
  unfolding round_half_even_def Let_def
  by (auto simp: not_less) linarith+

lemma round_half_even_lower: "m - 1 / 2 \<le> of_int (round_half_even m)"
  unfolding round_half_even_def Let_def
  by (auto simp: not_less) linarith+

lemma power_int_2_nat: "0 \<le> k \<Longrightarrow> power_int (2::rat) k = 2 ^ nat k"
  by (simp add: power_int_def)

lemma ilog2_lower:
  assumes "0 < x"
  shows "power_int 2 (ilog 2 x) \<le> x"
proof -
  obtain p q where pq: "quotient_of x = (p, q)" by (cases "quotient_of x")
  then have q: "0 < q" and x: "x = of_int p / of_int q"
    using quotient_of_denom_pos quotient_of_div by auto
  from assms x q have p: "0 < p" by (simp add: zero_less_divide_iff)
  define np nq where "np = ndigits 2 p" and "nq = ndigits 2 q"
  from ndigits2_bounds [OF p] have bp: "0 < np" "2 ^ nat (np - 1) \<le> p"
    by (simp_all add: np_def)
  from ndigits2_bounds [OF q] have bq: "0 < nq" "q < 2 ^ nat nq"
    by (simp_all add: nq_def)
  show ?thesis
  proof (cases "x < power_int 2 (np - nq)")
    case False
    then show ?thesis by (simp add: ilog_def pq np_def nq_def)
  next
    case True
    then have il: "ilog 2 x = np - nq - 1" by (simp add: ilog_def pq np_def nq_def)
    have eq: "np - nq - 1 = (np - 1) - nq" by simp
    have "power_int (2::rat) (np - nq - 1) = power_int 2 (np - 1) / power_int 2 nq"
      unfolding eq by (rule power_int_diff) simp
    also have "\<dots> = 2 ^ nat (np - 1) / 2 ^ nat nq"
      using bp(1) bq(1) by (simp add: power_int_2_nat)
    also have "\<dots> \<le> of_int p / of_int q"
    proof (rule frac_le)
      show "(0::rat) \<le> of_int p" using p by simp
      have "(of_int (2 ^ nat (np - 1)) :: rat) \<le> of_int p" using bp(2) of_int_le_iff by blast
      then show "(2::rat) ^ nat (np - 1) \<le> of_int p" by simp
      show "(0::rat) < of_int q" using q by simp
      have "(of_int q :: rat) \<le> of_int (2 ^ nat nq)" using bq(2) of_int_le_iff by (metis less_imp_le)
      then show "(of_int q :: rat) \<le> 2 ^ nat nq" by simp
    qed
    finally show ?thesis using il x by simp
  qed
qed

lemma js_round_small:
  assumes "0 \<le> x" and "x \<le> 100"
  shows "\<exists>p. js_round x = Fin p \<and> 0 \<le> p \<and> p \<le> 150
             \<and> \<bar>p - x\<bar> \<le> max x 1 / 2 ^ 53"
proof (cases "x = 0")
  case True
  then show ?thesis by (simp add: js_round_def)
next
  case False
  with assms have pos: "0 < x" by simp
  define e where "e = max (ilog 2 x) (- 1022)"
  define q where "q = power_int (2::rat) (e - 52)"
  define r where "r = of_int (round_half_even (x / q)) * q"
  have qpos: "0 < q" by (simp add: q_def)
  have q_small: "q \<le> max x 1 / 2 ^ 52"
  proof (cases "ilog 2 x \<le> - 1022")
    case True
    then have "e = - 1022" by (simp add: e_def)
    then have "q = power_int 2 (- 1074)" by (simp add: q_def)
    also have "\<dots> \<le> 1 / 2 ^ 52" by (simp add: power_int_def field_simps)
    also have "\<dots> \<le> max x 1 / 2 ^ 52" by (simp add: divide_right_mono)
    finally show ?thesis .
  next
    case False
    then have "e = ilog 2 x" by (simp add: e_def)
    then have "q = power_int 2 (ilog 2 x) / power_int 2 52"
      by (simp add: q_def power_int_diff)
    also have "\<dots> = power_int 2 (ilog 2 x) / 2 ^ 52"
      by (simp add: power_int_def)
    also have "\<dots> \<le> x / 2 ^ 52"
      using ilog2_lower [OF pos] by (simp add: divide_right_mono)
    also have "\<dots> \<le> max x 1 / 2 ^ 52" by (simp add: divide_right_mono)
    finally show ?thesis .
  qed
  have "b / 2 ^ 52 \<le> b" if "1 \<le> b" for b :: rat
    using that by (simp add: field_simps)
  from this [of "max x 1"] have "max x 1 / 2 ^ 52 \<le> max x 1" by simp
  with q_small have q_le: "q \<le> max x 1" by linarith
  have m: "0 \<le> x / q" using pos qpos by simp
  from round_half_even_bounds [OF m]
  have rb: "0 \<le> round_half_even (x / q)" "of_int (round_half_even (x / q)) \<le> x / q + 1 / 2"
    by simp_all
  have r0: "0 \<le> r" using rb(1) qpos by (simp add: r_def)
  have "r \<le> (x / q + 1 / 2) * q" unfolding r_def using rb(2) qpos
    by (simp add: mult_right_mono)
  also have "\<dots> = x + q / 2" using qpos by (simp add: field_simps)
  also have "\<dots> \<le> 100 + 50" using assms q_le by auto
  finally have r_le: "r \<le> 150" by simp
  have up: "r \<le> x + q / 2"
  proof -
    have "r \<le> (x / q + 1 / 2) * q" unfolding r_def using rb(2) qpos
      by (simp add: mult_right_mono)
    also have "\<dots> = x + q / 2" using qpos by (simp add: field_simps)
    finally show ?thesis .
  qed
  have low: "x - q / 2 \<le> r"
  proof -
    have "(x / q - 1 / 2) * q \<le> r" unfolding r_def
      using round_half_even_lower [of "x / q"] qpos by (simp add: mult_right_mono)
    moreover have "(x / q - 1 / 2) * q = x - q / 2" using qpos by (simp add: field_simps)
    ultimately show ?thesis by simp
  qed
  have "q / 2 \<le> max x 1 / 2 ^ 53" using q_small by simp
  with up low have near: "\<bar>r - x\<bar> \<le> max x 1 / 2 ^ 53" by linarith
  have "(150::rat) < 2 ^ 1024" by simp
  then have "\<not> power_int 2 1024 \<le> r" using r_le by (simp add: power_int_def)
  then have "js_round x = Fin r"
    using pos False
    by (simp add: js_round_def Let_def e_def [symmetric] q_def [symmetric] r_def [symmetric])
  with r0 r_le near show ?thesis by blast
qed

subsection \<open>The digits of \<^verbatim>\<open>toFixed\<close> and the capitals of the display name\<close>

lemma digit_char_0: "digit_char 0 = CHR ''0''"
  by code_simp

lemma digits_small: "n < 10 \<Longrightarrow> digits n = [digit_char n]"
  by (subst digits.simps) simp

lemma digits_big: "10 \<le> n \<Longrightarrow> digits n = digits (n div 10) @ [digit_char (n mod 10)]"
  by (subst digits.simps) simp

lemma digits_not_empty: "digits n \<noteq> []"
  by (cases "n < 10") (simp_all add: digits_small digits_big)

lemma digits_length: "Suc 0 \<le> length (digits n)"
  using digits_not_empty [of n] by (cases "digits n") simp_all

lemma digits_hundreds:
  assumes "100 \<le> n"
  shows "digits n = digits (n div 100) @ [digit_char (n div 10 mod 10), digit_char (n mod 10)]"
proof -
  have a: "digits n = digits (n div 10) @ [digit_char (n mod 10)]"
    using assms by (simp add: digits_big)
  have "10 \<le> n div 10" using assms by simp
  then have b: "digits (n div 10) = digits (n div 10 div 10) @ [digit_char (n div 10 mod 10)]"
    by (rule digits_big)
  have c: "n div 10 div 10 = n div 100" by (simp add: zdiv_zmult2_eq)
  show ?thesis by (simp add: a b c)
qed

lemma insert_point_2:
  assumes "0 \<le> n"
  shows "insert_point 2 (digits n)
         = digits (n div 100) @ ''.'' @ [digit_char (n div 10 mod 10), digit_char (n mod 10)]"
proof -
  consider "n < 10" | "10 \<le> n" "n < 100" | "100 \<le> n" by linarith
  then show ?thesis
  proof cases
    case 1
    with assms show ?thesis
      by (simp add: insert_point_def digits_small digit_char_0 numeral_2_eq_2)
  next
    case 2
    then have "digits n = [digit_char (n div 10), digit_char (n mod 10)]"
      by (simp add: digits_big digits_small)
    with 2 show ?thesis
      by (simp add: insert_point_def digits_small digit_char_0)
  next
    case 3
    from 3 show ?thesis
      by (simp add: insert_point_def digits_hundreds Let_def digits_length)
  qed
qed

lemma insert_point_1:
  assumes "0 \<le> n"
  shows "insert_point 1 (digits n) = digits (n div 10) @ ''.'' @ [digit_char (n mod 10)]"
proof (cases "n < 10")
  case True
  with assms show ?thesis
    by (simp add: insert_point_def digits_small digit_char_0)
next
  case False
  from False show ?thesis
    by (simp add: insert_point_def digits_big Let_def digits_length)
qed

lemma toFixed_2_format:
  assumes "0 \<le> r" and "r < 10 ^ 21"
  shows "toFixed 2 (Fin r)
         = digits (\<lfloor>r * 100 + 1 / 2\<rfloor> div 100) @ ''.''
           @ [digit_char (\<lfloor>r * 100 + 1 / 2\<rfloor> div 10 mod 10),
              digit_char (\<lfloor>r * 100 + 1 / 2\<rfloor> mod 10)]"
proof -
  have n0: "0 \<le> \<lfloor>r * 100 + 1 / 2\<rfloor>" using assms(1) by simp
  have "toFixed 2 (Fin r) = insert_point 2 (digits \<lfloor>r * 100 + 1 / 2\<rfloor>)"
    using assms by (simp add: toFixed_def not_le)
  with insert_point_2 [OF n0] show ?thesis by simp
qed

lemma toFixed_1_format:
  assumes "0 \<le> r" and "r < 10 ^ 21"
  shows "toFixed 1 (Fin r)
         = digits (\<lfloor>r * 10 + 1 / 2\<rfloor> div 10) @ ''.''
           @ [digit_char (\<lfloor>r * 10 + 1 / 2\<rfloor> mod 10)]"
proof -
  have n0: "0 \<le> \<lfloor>r * 10 + 1 / 2\<rfloor>" using assms(1) by simp
  have "toFixed 1 (Fin r) = insert_point 1 (digits \<lfloor>r * 10 + 1 / 2\<rfloor>)"
    using assms by (simp add: toFixed_def not_le)
  with insert_point_1 [OF n0] show ?thesis by simp
qed

lemma round_to_hundredths:
  "\<bar>of_int \<lfloor>r * 100 + 1 / 2\<rfloor> / 100 - r\<bar> \<le> 1 / (200::rat)"
proof -
  define n where "n = \<lfloor>r * 100 + 1 / 2\<rfloor>"
  have "of_int n \<le> r * 100 + 1 / 2" and "r * 100 + 1 / 2 < of_int n + 1"
    unfolding n_def by linarith+
  then have "\<bar>of_int n / 100 - r\<bar> \<le> 1 / (200::rat)" by linarith
  then show ?thesis by (simp only: n_def)
qed

lemma length_capitalize_words: "length (capitalize_words p s) = length s"
  by (induction s arbitrary: p) simp_all

lemma capitalize_words_nth:
  "i < length s \<Longrightarrow>
   capitalize_words p s ! i
   = (if is_word_char (s ! i) \<and> \<not> (if i = 0 then p else is_word_char (s ! (i - 1)))
      then toUpperCase (s ! i) else s ! i)"
proof (induction s arbitrary: p i)
  case Nil
  then show ?case by simp
next
  case (Cons c cs)
  show ?case
  proof (cases i)
    case 0
    then show ?thesis by simp
  next
    case (Suc j)
    with Cons.prems have j: "j < length cs" by simp
    show ?thesis
      using Cons.IH [OF j, of "is_word_char c"] Suc
      by (cases j) simp_all
  qed
qed

subsection \<open>Responses\<close>

lemma not_index_pitch: "\<not> is_array_index ''pitch_variance''"
  by (simp add: is_array_index_def is_digit_def code_unit_def)

lemma get_bad_file:
  "js_get bad_file_body ''success'' = Inr (JBool False)"
  "js_get bad_file_body ''errors'' = Inr JUndefined"
  "js_get bad_file_body ''error'' = Inr (JStr ''bad file'')"
  by (simp_all add: js_get_def bad_file_body_def)

lemma result_page_eq:
  "result_page =
     in_flight_page
       \<lparr>scoreValue_textContent := toFixed 2 (js_literal (75 / 100)),
        scoreFill_width :=
          set_width_percent (js_times (js_literal (75 / 100)) (Fin 100)) ''0%'',
        scoreInterpretation_textContent := stress_label (js_literal (75 / 100)),
        featuresContainer_children := [feature_element ''pitch_variance'' (js_literal (4 / 10))],
        resultContainer_display := ''block'',
        timers := 1,
        loading_display := ''none'',
        analyzeBtn_disabled := False,
        pending := 0\<rparr>"
proof -
  have ord: "own_property_order [(''pitch_variance'', v)] = [(''pitch_variance'', v)]" for v :: jsnum
    by (rule own_property_order_no_index) (simp add: not_index_pitch)
  have od: "on_data example_body in_flight_page
            = updateResults (JNum (js_literal (75 / 100)))
                (number_object [(''pitch_variance'', js_literal (4 / 10))]) in_flight_page"
    by (simp add: on_data_def example_body_def js_get_def truthy_def number_object_def)
  have p: "pending in_flight_page = 1" "timers in_flight_page = 0"
    "scoreFill_width in_flight_page = ''0%''"
    by (simp_all add: in_flight_page_eq loaded_page_def)
  show ?thesis
    by (simp add: result_page_def fire_def promise_chain_def fetch_json_def od
        updateResults_typed ord on_finally_def p)
qed





text \<open>
  C3. However the request settles, the chain ends in the cleanup and in a fulfilled
  promise: the loading indicator is hidden, the analyze button is enabled, and no
  error is left unhandled. A network failure, a body that is not JSON and a handler
  that throws all pass through the \<^verbatim>\<open>catch\<close> handler, which logs the error and alerts.
\<close>

theorem cleanup_always_runs:
  "loading_display (fst (promise_chain r s)) = ''none''
   \<and> \<not> analyzeBtn_disabled (fst (promise_chain r s))
   \<and> snd (promise_chain r s) = Done
   \<and> promise_chain NetworkFailure s = (on_finally (on_error TypeError s), Done)
   \<and> promise_chain BodyNotJson s = (on_finally (on_error SyntaxError s), Done)
   \<and> (snd (on_data data s) = Thrown e \<longrightarrow>
        promise_chain (Body data) s = (on_finally (on_error e (fst (on_data data s))), Done))
   \<and> (snd (on_data data s) = Done \<longrightarrow>
        promise_chain (Body data) s = (on_finally (fst (on_data data s)), Done))
   \<and> (0 < pending s \<longrightarrow>
        loading_display (fire (Response r) s) = ''none''
        \<and> \<not> analyzeBtn_disabled (fire (Response r) s)
        \<and> pending (fire (Response r) s) = pending s - 1)"
proof -
  have fin: "loading_display (on_finally t) = ''none'' \<and> \<not> analyzeBtn_disabled (on_finally t)"
    for t by (simp add: on_finally_def)
  have shape: "\<exists>t. promise_chain r s = (on_finally t, Done)"
    by (cases "fetch_json r"; cases "on_data (projr (fetch_json r)) s";
        cases "snd (on_data (projr (fetch_json r)) s)")
      (auto simp: promise_chain_def)
  then obtain t where t: "promise_chain r s = (on_finally t, Done)" by blast
  have a: "loading_display (fst (promise_chain r s)) = ''none''"
    and b: "\<not> analyzeBtn_disabled (fst (promise_chain r s))"
    and c: "snd (promise_chain r s) = Done"
    using fin [of t] by (simp_all add: t)
  have n: "promise_chain NetworkFailure s = (on_finally (on_error TypeError s), Done)"
    by (simp add: promise_chain_def fetch_json_def)
  have j: "promise_chain BodyNotJson s = (on_finally (on_error SyntaxError s), Done)"
    by (simp add: promise_chain_def fetch_json_def)
  have th: "snd (on_data data s) = Thrown e \<longrightarrow>
        promise_chain (Body data) s = (on_finally (on_error e (fst (on_data data s))), Done)"
    by (cases "on_data data s") (simp add: promise_chain_def fetch_json_def)
  have dn: "snd (on_data data s) = Done \<longrightarrow>
        promise_chain (Body data) s = (on_finally (fst (on_data data s)), Done)"
    by (cases "on_data data s") (simp add: promise_chain_def fetch_json_def)
  have ev: "0 < pending s \<longrightarrow>
        loading_display (fire (Response r) s) = ''none''
        \<and> \<not> analyzeBtn_disabled (fire (Response r) s)
        \<and> pending (fire (Response r) s) = pending s - 1"
    using a b by (simp add: fire_def)
  from a b c n j th dn ev show ?thesis by blast
qed

theorem cleanup_always_runs_witness:
  "0 < pending in_flight_page
   \<and> snd (on_data JNull in_flight_page) = Thrown TypeError
   \<and> snd (on_data no_features_body in_flight_page) = Thrown TypeError
   \<and> snd (on_data bad_file_body in_flight_page) = Done
   \<and> loading_display in_flight_page = ''block''
   \<and> analyzeBtn_disabled in_flight_page
   \<and> loading_display (fire (Response (Body JNull)) in_flight_page) = ''none''
   \<and> \<not> analyzeBtn_disabled (fire (Response (Body JNull)) in_flight_page)
   \<and> pending (fire (Response (Body JNull)) in_flight_page) = 0
   \<and> alerts (fst (promise_chain (Body JNull) in_flight_page))
       = [''An error occurred while processing the file.'']
   \<and> console_errors (fst (promise_chain (Body JNull) in_flight_page)) = [TypeError]
   \<and> alerts (fst (promise_chain (Body no_features_body) in_flight_page))
       = [''An error occurred while processing the file.'']
   \<and> featuresContainer_children (fst (promise_chain (Body no_features_body) in_flight_page)) = []
   \<and> loading_display (fst (promise_chain (Body no_features_body) in_flight_page)) = ''none''
   \<and> alerts (fst (promise_chain (Body bad_file_body) in_flight_page))
       = [''Error processing file: bad file'']
   \<and> loading_display (fst (promise_chain (Body bad_file_body) in_flight_page)) = ''none''"
proof -
  have o: "on_data JNull in_flight_page = (in_flight_page, Thrown TypeError)"
    by (simp add: on_data_def js_get_def)
  have n: "on_data no_features_body in_flight_page
           = updateResults (JNum (Fin (1 / 2))) JUndefined in_flight_page"
    by (simp add: on_data_def no_features_body_def js_get_def truthy_def)
  have u: "updateResults (JNum (Fin (1 / 2))) JUndefined in_flight_page
           = (in_flight_page
                \<lparr>scoreValue_textContent := toFixed 2 (Fin (1 / 2)),
                 scoreFill_width :=
                   set_width_percent (js_times (Fin (1 / 2)) (Fin 100))
                     (scoreFill_width in_flight_page),
                 scoreInterpretation_textContent := stress_label (Fin (1 / 2)),
                 featuresContainer_children := []\<rparr>, Thrown TypeError)"
    by (simp add: updateResults_number Object_entries_def)
  have b: "on_data bad_file_body in_flight_page
           = (alert ''Error processing file: bad file'' in_flight_page, Done)"
    by (simp add: on_data_def get_bad_file truthy_def js_or_def)
  have p: "pending in_flight_page = 1" "loading_display in_flight_page = ''block''"
    "analyzeBtn_disabled in_flight_page" "alerts in_flight_page = []"
    "console_errors in_flight_page = []"
    by (simp_all add: in_flight_page_eq loaded_page_def)
  show ?thesis
    using cleanup_always_runs [of "Body JNull" in_flight_page JNull TypeError]
      cleanup_always_runs [of "Body no_features_body" in_flight_page no_features_body TypeError]
      cleanup_always_runs [of "Body bad_file_body" in_flight_page bad_file_body TypeError]
      o p
    by (simp add: n u b on_finally_def on_error_def alert_def)
qed

subsection \<open>The interpretation of a score\<close>

lemma literal_0_3: "js_literal (3 / 10) = Fin (5404319552844595 / 18014398509481984)"
  by code_simp

lemma literal_0_6: "js_literal (6 / 10) = Fin (5404319552844595 / 9007199254740992)"
  by code_simp

lemma literal_0_29: "js_literal (29 / 100) = Fin (5224175567749775 / 18014398509481984)"
  by code_simp

lemma literal_0_59: "js_literal (59 / 100) = Fin (5314247560297185 / 9007199254740992)"
  by code_simp

lemma stress_label_finite:
  "stress_label (Fin r) =
     (if r < 5404319552844595 / 18014398509481984 then ''Low Stress''
      else if r < 5404319552844595 / 9007199254740992 then ''Moderate Stress''
      else ''High Stress'')"
  unfolding stress_label_def literal_0_3 literal_0_6 by (simp add: js_less_def)

lemma label_of_render:
  "scoreInterpretation_textContent (fst (updateResults (JNum n) fe s)) = stress_label n"
  by (simp add: updateResults_number split: sum.splits outcome.splits)

text \<open>
  C4. For a score in \<open>[0, 1]\<close> the interpretation is "Low Stress" exactly below
  \<^verbatim>\<open>0.3\<close>, "Moderate Stress" exactly from \<^verbatim>\<open>0.3\<close> up to but not including \<^verbatim>\<open>0.6\<close>, and
  "High Stress" exactly from \<^verbatim>\<open>0.6\<close> on, where \<^verbatim>\<open>0.3\<close> and \<^verbatim>\<open>0.6\<close> are the Numbers of
  these literals (the two rationals below); the scores \<^verbatim>\<open>0.29\<close>, \<^verbatim>\<open>0.3\<close>, \<^verbatim>\<open>0.59\<close>,
  \<^verbatim>\<open>0.6\<close> and \<^verbatim>\<open>1.0\<close> get "Low Stress", "Moderate Stress", "Moderate Stress",
  "High Stress" and "High Stress". The interpretation is written before the features are
  read, so it is there whatever the features are.
\<close>

theorem stress_label_thresholds:
  "(0 \<le> r \<and> r \<le> 1 \<longrightarrow>
      (scoreInterpretation_textContent (fst (updateResults (JNum (Fin r)) features s))
         = ''Low Stress''
       \<longleftrightarrow> r < 5404319552844595 / 18014398509481984)
    \<and> (scoreInterpretation_textContent (fst (updateResults (JNum (Fin r)) features s))
         = ''Moderate Stress''
       \<longleftrightarrow> 5404319552844595 / 18014398509481984 \<le> r \<and> r < 5404319552844595 / 9007199254740992)
    \<and> (scoreInterpretation_textContent (fst (updateResults (JNum (Fin r)) features s))
         = ''High Stress''
       \<longleftrightarrow> 5404319552844595 / 9007199254740992 \<le> r))
   \<and> js_literal (3 / 10) = Fin (5404319552844595 / 18014398509481984)
   \<and> js_literal (6 / 10) = Fin (5404319552844595 / 9007199254740992)
   \<and> scoreInterpretation_textContent
        (fst (updateResults (JNum (js_literal (29 / 100))) features s)) = ''Low Stress''
   \<and> scoreInterpretation_textContent
        (fst (updateResults (JNum (js_literal (3 / 10))) features s)) = ''Moderate Stress''
   \<and> scoreInterpretation_textContent
        (fst (updateResults (JNum (js_literal (59 / 100))) features s)) = ''Moderate Stress''
   \<and> scoreInterpretation_textContent
        (fst (updateResults (JNum (js_literal (6 / 10))) features s)) = ''High Stress''
   \<and> scoreInterpretation_textContent
        (fst (updateResults (JNum (Fin 1)) features s)) = ''High Stress''
   \<and> scoreInterpretation_textContent
        (fst (updateResults (JNum (Fin 0)) features s)) = ''Low Stress''"
proof -
  have a: "0 \<le> r \<and> r \<le> 1 \<longrightarrow>
      (scoreInterpretation_textContent (fst (updateResults (JNum (Fin r)) features s))
         = ''Low Stress''
       \<longleftrightarrow> r < 5404319552844595 / 18014398509481984)
    \<and> (scoreInterpretation_textContent (fst (updateResults (JNum (Fin r)) features s))
         = ''Moderate Stress''
       \<longleftrightarrow> 5404319552844595 / 18014398509481984 \<le> r \<and> r < 5404319552844595 / 9007199254740992)
    \<and> (scoreInterpretation_textContent (fst (updateResults (JNum (Fin r)) features s))
         = ''High Stress''
       \<longleftrightarrow> 5404319552844595 / 9007199254740992 \<le> r)"
    unfolding label_of_render stress_label_finite by auto
  have b: "scoreInterpretation_textContent
        (fst (updateResults (JNum (js_literal (29 / 100))) features s)) = ''Low Stress''"
    unfolding label_of_render literal_0_29 stress_label_finite by simp
  have c: "scoreInterpretation_textContent
        (fst (updateResults (JNum (js_literal (3 / 10))) features s)) = ''Moderate Stress''"
    unfolding label_of_render literal_0_3 stress_label_finite by simp
  have d: "scoreInterpretation_textContent
        (fst (updateResults (JNum (js_literal (59 / 100))) features s)) = ''Moderate Stress''"
    unfolding label_of_render literal_0_59 stress_label_finite by simp
  have e: "scoreInterpretation_textContent
        (fst (updateResults (JNum (js_literal (6 / 10))) features s)) = ''High Stress''"
    unfolding label_of_render literal_0_6 stress_label_finite by simp
  have f: "scoreInterpretation_textContent
        (fst (updateResults (JNum (Fin 1)) features s)) = ''High Stress''"
    unfolding label_of_render stress_label_finite by simp
  have g: "scoreInterpretation_textContent
        (fst (updateResults (JNum (Fin 0)) features s)) = ''Low Stress''"
    unfolding label_of_render stress_label_finite by simp
  from a b c d e f g literal_0_3 literal_0_6 show ?thesis by blast
qed

theorem stress_label_thresholds_witness:
  "(0::rat) \<le> 1 / 2 \<and> (1::rat) / 2 \<le> 1
   \<and> (5404319552844595::rat) / 18014398509481984 \<le> 1 / 2
   \<and> (1::rat) / 2 < 5404319552844595 / 9007199254740992
   \<and> scoreInterpretation_textContent (fst (updateResults (JNum (Fin (1 / 2))) JNull loaded_page))
       = ''Moderate Stress''"
  using stress_label_thresholds [of "1 / 2" JNull loaded_page] by simp

subsection \<open>The example response, evaluated\<close>

lemma literal_0_75: "js_literal (75 / 100) = Fin (3 / 4)"
  by code_simp

lemma literal_0_4: "js_literal (4 / 10) = Fin (3602879701896397 / 9007199254740992)"
  by code_simp

lemma literal_1_5: "js_literal (15 / 10) = Fin (3 / 2)"
  by code_simp

lemma fixed_0_75: "toFixed 2 (Fin (3 / 4)) = ''0.75''"
  by code_simp

lemma times_0_75: "js_times (Fin (3 / 4)) (Fin 100) = Fin 75"
  by code_simp

lemma times_0_4: "js_times (Fin (3602879701896397 / 9007199254740992)) (Fin 100) = Fin 40"
  by code_simp

lemma times_1_5: "js_times (Fin (3 / 2)) (Fin 100) = Fin 150"
  by code_simp

lemma string_75: "number_to_string (Fin 75) = ''75''"
  by code_simp

lemma string_40: "number_to_string (Fin 40) = ''40''"
  by code_simp

lemma string_150: "number_to_string (Fin 150) = ''150''"
  by code_simp

lemma fixed_40: "toFixed 1 (Fin 40) = ''40.0''"
  by code_simp

lemma fixed_150: "toFixed 1 (Fin 150) = ''150.0''"
  by code_simp

lemma name_pitch_variance: "displayName ''pitch_variance'' = ''Pitch Variance''"
  by code_simp

lemma name_energy: "displayName ''energy'' = ''Energy''"
  by code_simp

lemma times_0_5: "js_times (Fin (1 / 2)) (Fin 100) = Fin 50"
  by code_simp

lemma string_50: "number_to_string (Fin 50) = ''50''"
  by code_simp

lemma fixed_50: "toFixed 1 (Fin 50) = ''50.0''"
  by code_simp

lemma name_its: "displayName ''it's'' = ''It'S''"
  by code_simp

lemma not_index_energy: "\<not> is_array_index ''energy''"
  by (simp add: is_array_index_def is_digit_def code_unit_def)

lemma not_index_its: "\<not> is_array_index ''it's''"
  by (simp add: is_array_index_def is_digit_def code_unit_def)

subsection \<open>What a render shows\<close>

lemma replace_underscores_nth:
  "i < length k \<Longrightarrow> replace_underscores k ! i = (if k ! i = CHR ''_'' then CHR '' '' else k ! i)"
  by (simp add: replace_underscores_def)

lemma displayName_nth:
  assumes "i < length k"
  shows "displayName k ! i
         = (if is_word_char (replace_underscores k ! i)
               \<and> (i = 0 \<or> \<not> is_word_char (replace_underscores k ! (i - 1)))
            then toUpperCase (replace_underscores k ! i)
            else replace_underscores k ! i)"
proof -
  have "i < length (replace_underscores k)" using assms by (simp add: replace_underscores_def)
  from capitalize_words_nth [OF this, of False] show ?thesis
    by (auto simp: displayName_def)
qed

lemma length_displayName: "length (displayName k) = length k"
  by (simp add: displayName_def length_capitalize_words replace_underscores_def)

lemma gauge_width:
  assumes "0 \<le> r" and "r \<le> 1"
  shows "set_width_percent (js_times (Fin r) (Fin 100)) old
         = number_to_string (js_times (Fin r) (Fin 100)) @ ''%''"
proof -
  have "0 \<le> r * 100" "r * 100 \<le> 100" using assms by simp_all
  from js_round_small [OF this] obtain p where "js_round (r * 100) = Fin p" "0 \<le> p" by blast
  then show ?thesis by (simp add: js_times_def set_width_percent_def)
qed

lemma feature_element_markup:
  \<open>feature_element k c =
     \<lparr>el_className = ''feature'',
      el_innerHTML =
        ''\<newline>                <div class="feature-name">\<newline>                    <span>''
        @ displayName k
        @ ''</span>\<newline>                    <span>''
        @ toFixed 1 (js_times c (Fin 100))
        @ ''%</span>\<newline>                </div>\<newline>                <div class="feature-bar">\<newline>                    <div class="feature-fill" style="width: ''
        @ number_to_string (js_times c (Fin 100))
        @ ''%"></div>\<newline>                </div>\<newline>            ''\<rparr>\<close>
  by (simp add: feature_element_def feature_markup_def)

lemma times_100_near:
  assumes "0 \<le> q" and "q \<le> 1"
  shows "\<exists>p. js_times (Fin q) (Fin 100) = Fin p \<and> 0 \<le> p \<and> p \<le> 150
             \<and> \<bar>p - q * 100\<bar> \<le> 100 / 2 ^ 53"
proof -
  have x: "0 \<le> q * 100" "q * 100 \<le> 100" using assms by simp_all
  from js_round_small [OF x] obtain p where p: "js_round (q * 100) = Fin p" "0 \<le> p"
    "p \<le> 150" "\<bar>p - q * 100\<bar> \<le> max (q * 100) 1 / 2 ^ 53"
    by blast
  have "max (q * 100) 1 / 2 ^ 53 \<le> (100::rat) / 2 ^ 53"
    using x(2) by (simp add: divide_right_mono)
  with p(4) have "\<bar>p - q * 100\<bar> \<le> 100 / 2 ^ 53" by linarith
  with p show ?thesis by (auto simp: js_times_def)
qed

lemma round_to_tenths:
  "\<bar>of_int \<lfloor>p * 10 + 1 / 2\<rfloor> / 10 - p\<bar> \<le> 1 / (20::rat)"
proof -
  define n where "n = \<lfloor>p * 10 + 1 / 2\<rfloor>"
  have "of_int n \<le> p * 10 + 1 / 2" and "p * 10 + 1 / 2 < of_int n + 1"
    unfolding n_def by linarith+
  then have "\<bar>of_int n / 10 - p\<bar> \<le> 1 / (20::rat)" by linarith
  then show ?thesis by (simp only: n_def)
qed

lemma contribution_percent:
  assumes "0 \<le> q" and "q \<le> 1"
  shows "\<exists>p. js_times (Fin q) (Fin 100) = Fin p \<and> 0 \<le> p
             \<and> \<bar>p - q * 100\<bar> \<le> 100 / 2 ^ 53
             \<and> toFixed 1 (Fin p)
                 = digits (\<lfloor>p * 10 + 1 / 2\<rfloor> div 10) @ ''.''
                   @ [digit_char (\<lfloor>p * 10 + 1 / 2\<rfloor> mod 10)]
             \<and> \<bar>of_int \<lfloor>p * 10 + 1 / 2\<rfloor> / 10 - p\<bar> \<le> 1 / 20"
proof -
  from times_100_near [OF assms] obtain p where p: "js_times (Fin q) (Fin 100) = Fin p"
    "0 \<le> p" "p \<le> 150" "\<bar>p - q * 100\<bar> \<le> 100 / 2 ^ 53"
    by blast
  from p(3) have big: "p < 10 ^ 21" by simp
  from toFixed_1_format [OF p(2) big] round_to_tenths [of p] p show ?thesis by blast
qed

lemma not_word_space: "\<not> is_word_char CHR '' ''"
  by (simp add: is_word_char_def is_digit_def is_lower_def is_upper_def code_unit_def)

lemma displayName_words:
  assumes "list_all (\<lambda>c. is_word_char c \<or> c = CHR '' '') k" and "i < length k"
  shows "displayName k ! i
         = (if replace_underscores k ! i \<noteq> CHR '' ''
               \<and> (i = 0 \<or> replace_underscores k ! (i - 1) = CHR '' '')
            then toUpperCase (replace_underscores k ! i)
            else replace_underscores k ! i)"
proof -
  have w: "is_word_char (replace_underscores k ! j) \<longleftrightarrow> replace_underscores k ! j \<noteq> CHR '' ''"
    if "j < length k" for j
  proof -
    from assms(1) that have "is_word_char (k ! j) \<or> k ! j = CHR '' ''"
      by (simp add: list_all_length)
    then show ?thesis
      using that not_word_space by (auto simp: replace_underscores_nth)
  qed
  have prev: "i - 1 < length k" using assms(2) by simp
  show ?thesis
    unfolding displayName_nth [OF assms(2)] w [OF assms(2)] w [OF prev] by simp
qed

text \<open>
  C6, as the script has it. For a score in \<open>[0, 1]\<close> and a features object whose values
  are Numbers, the render returns and shows: the score as \<^verbatim>\<open>toFixed(2)\<close> prints it,
  which is the integer part, a point and two digits of the nearest hundredth; the gauge
  width, which is the double nearest to the score times 100, printed and followed by
  \<^verbatim>\<open>%\<close>; and one element for each entry, whose markup is the template with three
  holes filled. The first hole takes the key, not escaped, with underscores replaced by
  spaces and with every word character that follows the start or a character that is
  not a word character in upper case; in a key of letters, digits, underscores and
  spaces that is the first character of each word and no other. The second hole takes
  the contribution times 100 as \<^verbatim>\<open>toFixed(1)\<close> prints it, which for a contribution in
  \<open>[0, 1]\<close> is the integer part, a point and one digit of the nearest tenth; the third,
  in the \<^verbatim>\<open>width\<close> of the bar, takes the contribution times 100 as printed, whatever the
  product is. The score \<^verbatim>\<open>0.75\<close> with \<^verbatim>\<open>{"pitch_variance": 0.4}\<close> gives "0.75", "75%",
  "High Stress" and the markup with "Pitch Variance", "40.0%" and a width of "40%"; a
  contribution of \<^verbatim>\<open>1.5\<close> gives "150.0%" and a width of "150%".
\<close>

theorem render_shows_score_and_features:
  \<open>(0 \<le> r \<and> r \<le> 1 \<longrightarrow>
      snd (updateResults (JNum (Fin r)) (number_object fs) s) = Done
      \<and> scoreValue_textContent (fst (updateResults (JNum (Fin r)) (number_object fs) s))
          = toFixed 2 (Fin r)
      \<and> toFixed 2 (Fin r)
          = digits (\<lfloor>r * 100 + 1 / 2\<rfloor> div 100) @ ''.''
            @ [digit_char (\<lfloor>r * 100 + 1 / 2\<rfloor> div 10 mod 10),
               digit_char (\<lfloor>r * 100 + 1 / 2\<rfloor> mod 10)]
      \<and> \<bar>of_int \<lfloor>r * 100 + 1 / 2\<rfloor> / 100 - r\<bar> \<le> 1 / 200
      \<and> scoreFill_width (fst (updateResults (JNum (Fin r)) (number_object fs) s))
          = number_to_string (js_times (Fin r) (Fin 100)) @ ''%''
      \<and> (\<exists>p. js_times (Fin r) (Fin 100) = Fin p \<and> 0 \<le> p
               \<and> \<bar>p - r * 100\<bar> \<le> 100 / 2 ^ 53)
      \<and> featuresContainer_children (fst (updateResults (JNum (Fin r)) (number_object fs) s))
          = map (\<lambda>kv.
                  \<lparr>el_className = ''feature'',
                   el_innerHTML =
                     ''\<newline>                <div class="feature-name">\<newline>                    <span>''
                     @ displayName (fst kv)
                     @ ''</span>\<newline>                    <span>''
                     @ toFixed 1 (js_times (snd kv) (Fin 100))
                     @ ''%</span>\<newline>                </div>\<newline>                <div class="feature-bar">\<newline>                    <div class="feature-fill" style="width: ''
                     @ number_to_string (js_times (snd kv) (Fin 100))
                     @ ''%"></div>\<newline>                </div>\<newline>            ''\<rparr>)
              (own_property_order fs)
      \<and> resultContainer_display (fst (updateResults (JNum (Fin r)) (number_object fs) s))
          = ''block'')
   \<and> (0 \<le> q \<and> q \<le> 1 \<longrightarrow>
        (\<exists>p. js_times (Fin q) (Fin 100) = Fin p \<and> 0 \<le> p
              \<and> \<bar>p - q * 100\<bar> \<le> 100 / 2 ^ 53
              \<and> toFixed 1 (Fin p)
                  = digits (\<lfloor>p * 10 + 1 / 2\<rfloor> div 10) @ ''.''
                    @ [digit_char (\<lfloor>p * 10 + 1 / 2\<rfloor> mod 10)]
              \<and> \<bar>of_int \<lfloor>p * 10 + 1 / 2\<rfloor> / 10 - p\<bar> \<le> 1 / 20))
   \<and> length (displayName k) = length k
   \<and> (\<forall>i<length k.
        displayName k ! i
          = (if is_word_char (replace_underscores k ! i)
                \<and> (i = 0 \<or> \<not> is_word_char (replace_underscores k ! (i - 1)))
             then toUpperCase (replace_underscores k ! i)
             else replace_underscores k ! i))
   \<and> (list_all (\<lambda>c. is_word_char c \<or> c = CHR '' '') k \<longrightarrow>
        (\<forall>i<length k.
           displayName k ! i
             = (if replace_underscores k ! i \<noteq> CHR '' ''
                   \<and> (i = 0 \<or> replace_underscores k ! (i - 1) = CHR '' '')
                then toUpperCase (replace_underscores k ! i)
                else replace_underscores k ! i)))
   \<and> replace_underscores k = map (\<lambda>c. if c = CHR ''_'' then CHR '' '' else c) k
   \<and> scoreValue_textContent
        (fst (updateResults (JNum (js_literal (75 / 100)))
               (number_object [(''pitch_variance'', js_literal (4 / 10))]) s)) = ''0.75''
   \<and> scoreFill_width
        (fst (updateResults (JNum (js_literal (75 / 100)))
               (number_object [(''pitch_variance'', js_literal (4 / 10))]) s)) = ''75%''
   \<and> scoreInterpretation_textContent
        (fst (updateResults (JNum (js_literal (75 / 100)))
               (number_object [(''pitch_variance'', js_literal (4 / 10))]) s)) = ''High Stress''
   \<and> featuresContainer_children
        (fst (updateResults (JNum (js_literal (75 / 100)))
               (number_object [(''pitch_variance'', js_literal (4 / 10))]) s))
       = [\<lparr>el_className = ''feature'',
           el_innerHTML =
             ''\<newline>                <div class="feature-name">\<newline>                    <span>Pitch Variance</span>\<newline>                    <span>40.0%</span>\<newline>                </div>\<newline>                <div class="feature-bar">\<newline>                    <div class="feature-fill" style="width: 40%"></div>\<newline>                </div>\<newline>            ''\<rparr>]
   \<and> featuresContainer_children
        (fst (updateResults (JNum (js_literal (75 / 100)))
               (number_object [(''energy'', js_literal (15 / 10))]) s))
       = [\<lparr>el_className = ''feature'',
           el_innerHTML =
             ''\<newline>                <div class="feature-name">\<newline>                    <span>Energy</span>\<newline>                    <span>150.0%</span>\<newline>                </div>\<newline>                <div class="feature-bar">\<newline>                    <div class="feature-fill" style="width: 150%"></div>\<newline>                </div>\<newline>            ''\<rparr>]\<close>
proof -
  have typed: \<open>0 \<le> r \<and> r \<le> 1 \<longrightarrow>
      snd (updateResults (JNum (Fin r)) (number_object fs) s) = Done
      \<and> scoreValue_textContent (fst (updateResults (JNum (Fin r)) (number_object fs) s))
          = toFixed 2 (Fin r)
      \<and> toFixed 2 (Fin r)
          = digits (\<lfloor>r * 100 + 1 / 2\<rfloor> div 100) @ ''.''
            @ [digit_char (\<lfloor>r * 100 + 1 / 2\<rfloor> div 10 mod 10),
               digit_char (\<lfloor>r * 100 + 1 / 2\<rfloor> mod 10)]
      \<and> \<bar>of_int \<lfloor>r * 100 + 1 / 2\<rfloor> / 100 - r\<bar> \<le> 1 / 200
      \<and> scoreFill_width (fst (updateResults (JNum (Fin r)) (number_object fs) s))
          = number_to_string (js_times (Fin r) (Fin 100)) @ ''%''
      \<and> (\<exists>p. js_times (Fin r) (Fin 100) = Fin p \<and> 0 \<le> p
               \<and> \<bar>p - r * 100\<bar> \<le> 100 / 2 ^ 53)
      \<and> featuresContainer_children (fst (updateResults (JNum (Fin r)) (number_object fs) s))
          = map (\<lambda>kv.
                  \<lparr>el_className = ''feature'',
                   el_innerHTML =
                     ''\<newline>                <div class="feature-name">\<newline>                    <span>''
                     @ displayName (fst kv)
                     @ ''</span>\<newline>                    <span>''
                     @ toFixed 1 (js_times (snd kv) (Fin 100))
                     @ ''%</span>\<newline>                </div>\<newline>                <div class="feature-bar">\<newline>                    <div class="feature-fill" style="width: ''
                     @ number_to_string (js_times (snd kv) (Fin 100))
                     @ ''%"></div>\<newline>                </div>\<newline>            ''\<rparr>)
              (own_property_order fs)
      \<and> resultContainer_display (fst (updateResults (JNum (Fin r)) (number_object fs) s))
          = ''block''\<close>
  proof
    assume r: "0 \<le> r \<and> r \<le> 1"
    then have big: "r < 10 ^ 21" by simp
    from r have fmt: "toFixed 2 (Fin r)
          = digits (\<lfloor>r * 100 + 1 / 2\<rfloor> div 100) @ ''.''
            @ [digit_char (\<lfloor>r * 100 + 1 / 2\<rfloor> div 10 mod 10),
               digit_char (\<lfloor>r * 100 + 1 / 2\<rfloor> mod 10)]"
      using toFixed_2_format [OF _ big] by simp
    from r have w: "set_width_percent (js_times (Fin r) (Fin 100)) (scoreFill_width s)
                    = number_to_string (js_times (Fin r) (Fin 100)) @ ''%''"
      using gauge_width by simp
    from r times_100_near [of r]
    have near: "\<exists>p. js_times (Fin r) (Fin 100) = Fin p \<and> 0 \<le> p
               \<and> \<bar>p - r * 100\<bar> \<le> 100 / 2 ^ 53"
      by blast
    have a1: "snd (updateResults (JNum (Fin r)) (number_object fs) s) = Done"
      by (simp add: updateResults_typed)
    have a2: "scoreValue_textContent (fst (updateResults (JNum (Fin r)) (number_object fs) s))
          = toFixed 2 (Fin r)"
      by (simp add: updateResults_typed)
    have a3: "scoreFill_width (fst (updateResults (JNum (Fin r)) (number_object fs) s))
          = number_to_string (js_times (Fin r) (Fin 100)) @ ''%''"
      using w by (simp add: updateResults_typed)
    have a4: \<open>featuresContainer_children
            (fst (updateResults (JNum (Fin r)) (number_object fs) s))
          = map (\<lambda>kv.
                  \<lparr>el_className = ''feature'',
                   el_innerHTML =
                     ''\<newline>                <div class="feature-name">\<newline>                    <span>''
                     @ displayName (fst kv)
                     @ ''</span>\<newline>                    <span>''
                     @ toFixed 1 (js_times (snd kv) (Fin 100))
                     @ ''%</span>\<newline>                </div>\<newline>                <div class="feature-bar">\<newline>                    <div class="feature-fill" style="width: ''
                     @ number_to_string (js_times (snd kv) (Fin 100))
                     @ ''%"></div>\<newline>                </div>\<newline>            ''\<rparr>)
              (own_property_order fs)\<close>
      unfolding updateResults_typed feature_element_markup by simp
    have a5: "resultContainer_display (fst (updateResults (JNum (Fin r)) (number_object fs) s))
          = ''block''"
      by (simp add: updateResults_typed)
    note inner = a1 a2 fmt round_to_hundredths [of r] a3 near a4 a5
    show \<open>snd (updateResults (JNum (Fin r)) (number_object fs) s) = Done
      \<and> scoreValue_textContent (fst (updateResults (JNum (Fin r)) (number_object fs) s))
          = toFixed 2 (Fin r)
      \<and> toFixed 2 (Fin r)
          = digits (\<lfloor>r * 100 + 1 / 2\<rfloor> div 100) @ ''.''
            @ [digit_char (\<lfloor>r * 100 + 1 / 2\<rfloor> div 10 mod 10),
               digit_char (\<lfloor>r * 100 + 1 / 2\<rfloor> mod 10)]
      \<and> \<bar>of_int \<lfloor>r * 100 + 1 / 2\<rfloor> / 100 - r\<bar> \<le> 1 / 200
      \<and> scoreFill_width (fst (updateResults (JNum (Fin r)) (number_object fs) s))
          = number_to_string (js_times (Fin r) (Fin 100)) @ ''%''
      \<and> (\<exists>p. js_times (Fin r) (Fin 100) = Fin p \<and> 0 \<le> p
               \<and> \<bar>p - r * 100\<bar> \<le> 100 / 2 ^ 53)
      \<and> featuresContainer_children (fst (updateResults (JNum (Fin r)) (number_object fs) s))
          = map (\<lambda>kv.
                  \<lparr>el_className = ''feature'',
                   el_innerHTML =
                     ''\<newline>                <div class="feature-name">\<newline>                    <span>''
                     @ displayName (fst kv)
                     @ ''</span>\<newline>                    <span>''
                     @ toFixed 1 (js_times (snd kv) (Fin 100))
                     @ ''%</span>\<newline>                </div>\<newline>                <div class="feature-bar">\<newline>                    <div class="feature-fill" style="width: ''
                     @ number_to_string (js_times (snd kv) (Fin 100))
                     @ ''%"></div>\<newline>                </div>\<newline>            ''\<rparr>)
              (own_property_order fs)
      \<and> resultContainer_display (fst (updateResults (JNum (Fin r)) (number_object fs) s))
          = ''block''\<close>
      by (intro conjI) (rule inner)+
  qed
  have one: "0 \<le> q \<and> q \<le> 1 \<longrightarrow>
        (\<exists>p. js_times (Fin q) (Fin 100) = Fin p \<and> 0 \<le> p
              \<and> \<bar>p - q * 100\<bar> \<le> 100 / 2 ^ 53
              \<and> toFixed 1 (Fin p)
                  = digits (\<lfloor>p * 10 + 1 / 2\<rfloor> div 10) @ ''.''
                    @ [digit_char (\<lfloor>p * 10 + 1 / 2\<rfloor> mod 10)]
              \<and> \<bar>of_int \<lfloor>p * 10 + 1 / 2\<rfloor> / 10 - p\<bar> \<le> 1 / 20)"
    using contribution_percent [of q] by blast
  have nth: "\<forall>i<length k.
        displayName k ! i
          = (if is_word_char (replace_underscores k ! i)
                \<and> (i = 0 \<or> \<not> is_word_char (replace_underscores k ! (i - 1)))
             then toUpperCase (replace_underscores k ! i)
             else replace_underscores k ! i)"
    using displayName_nth by blast
  have words: "list_all (\<lambda>c. is_word_char c \<or> c = CHR '' '') k \<longrightarrow>
        (\<forall>i<length k.
           displayName k ! i
             = (if replace_underscores k ! i \<noteq> CHR '' ''
                   \<and> (i = 0 \<or> replace_underscores k ! (i - 1) = CHR '' '')
                then toUpperCase (replace_underscores k ! i)
                else replace_underscores k ! i))"
    using displayName_words [of k] by blast
  have ord: "own_property_order [(key, v)] = [(key, v)]"
    if "\<not> is_array_index key" for key and v :: jsnum
    by (rule own_property_order_no_index) (simp add: that)
  have gen: "updateResults (JNum n) (number_object [(key, c)]) s
            = (s\<lparr>scoreValue_textContent := toFixed 2 n,
                 scoreFill_width :=
                   set_width_percent (js_times n (Fin 100)) (scoreFill_width s),
                 scoreInterpretation_textContent := stress_label n,
                 featuresContainer_children := [feature_element key c],
                 resultContainer_display := ''block'',
                 timers := timers s + 1\<rparr>, Done)"
    if "\<not> is_array_index key" for n c key
    by (simp add: updateResults_typed ord [OF that])
  have pitch_el: \<open>feature_element ''pitch_variance'' (js_literal (4 / 10))
       = \<lparr>el_className = ''feature'',
          el_innerHTML =
            ''\<newline>                <div class="feature-name">\<newline>                    <span>Pitch Variance</span>\<newline>                    <span>40.0%</span>\<newline>                </div>\<newline>                <div class="feature-bar">\<newline>                    <div class="feature-fill" style="width: 40%"></div>\<newline>                </div>\<newline>            ''\<rparr>\<close>
    unfolding feature_element_markup literal_0_4 times_0_4 fixed_40 string_40
      name_pitch_variance
    by simp
  have energy_el: \<open>feature_element ''energy'' (js_literal (15 / 10))
       = \<lparr>el_className = ''feature'',
          el_innerHTML =
            ''\<newline>                <div class="feature-name">\<newline>                    <span>Energy</span>\<newline>                    <span>150.0%</span>\<newline>                </div>\<newline>                <div class="feature-bar">\<newline>                    <div class="feature-fill" style="width: 150%"></div>\<newline>                </div>\<newline>            ''\<rparr>\<close>
    unfolding feature_element_markup literal_1_5 times_1_5 fixed_150 string_150 name_energy
    by simp
  have top: "toFixed 2 (js_literal (75 / 100)) = ''0.75''"
    "set_width_percent (js_times (js_literal (75 / 100)) (Fin 100)) old = ''75%''"
    "stress_label (js_literal (75 / 100)) = ''High Stress''" for old
    unfolding literal_0_75 fixed_0_75 times_0_75 stress_label_finite set_width_percent_def
      string_75
    by simp_all
  have x1: "scoreValue_textContent
        (fst (updateResults (JNum (js_literal (75 / 100)))
               (number_object [(''pitch_variance'', js_literal (4 / 10))]) s)) = ''0.75''"
    unfolding gen [OF not_index_pitch] top by simp
  have x2: "scoreFill_width
        (fst (updateResults (JNum (js_literal (75 / 100)))
               (number_object [(''pitch_variance'', js_literal (4 / 10))]) s)) = ''75%''"
    unfolding gen [OF not_index_pitch] top by simp
  have x3: "scoreInterpretation_textContent
        (fst (updateResults (JNum (js_literal (75 / 100)))
               (number_object [(''pitch_variance'', js_literal (4 / 10))]) s)) = ''High Stress''"
    unfolding gen [OF not_index_pitch] top by simp
  have x4: \<open>featuresContainer_children
        (fst (updateResults (JNum (js_literal (75 / 100)))
               (number_object [(''pitch_variance'', js_literal (4 / 10))]) s))
       = [\<lparr>el_className = ''feature'',
           el_innerHTML =
             ''\<newline>                <div class="feature-name">\<newline>                    <span>Pitch Variance</span>\<newline>                    <span>40.0%</span>\<newline>                </div>\<newline>                <div class="feature-bar">\<newline>                    <div class="feature-fill" style="width: 40%"></div>\<newline>                </div>\<newline>            ''\<rparr>]\<close>
    unfolding gen [OF not_index_pitch] pitch_el by simp
  have x5: \<open>featuresContainer_children
        (fst (updateResults (JNum (js_literal (75 / 100)))
               (number_object [(''energy'', js_literal (15 / 10))]) s))
       = [\<lparr>el_className = ''feature'',
           el_innerHTML =
             ''\<newline>                <div class="feature-name">\<newline>                    <span>Energy</span>\<newline>                    <span>150.0%</span>\<newline>                </div>\<newline>                <div class="feature-bar">\<newline>                    <div class="feature-fill" style="width: 150%"></div>\<newline>                </div>\<newline>            ''\<rparr>]\<close>
    unfolding gen [OF not_index_energy] energy_el by simp
  note parts = typed one length_displayName [of k] nth words
    replace_underscores_def [of k] x1 x2 x3 x4 x5
  show ?thesis by (intro conjI) (rule parts)+
qed

text \<open>
  The claim as stated, that each word's first letter and no other is put in upper case,
  fails on a key with an apostrophe: the letter after it is a first word character for
  \<^verbatim>\<open>\b\w\<close>, so \<^verbatim>\<open>it's\<close> is shown as \<^verbatim>\<open>It'S\<close>.
\<close>

theorem first_letter_counterexample:
  \<open>displayName ''it's'' = ''It'S''
   \<and> ''It'S'' \<noteq> ''It's''
   \<and> featuresContainer_children
        (fst (updateResults (JNum (Fin (1 / 2))) (number_object [(''it's'', Fin (1 / 2))])
               loaded_page))
       = [\<lparr>el_className = ''feature'',
           el_innerHTML =
             ''\<newline>                <div class="feature-name">\<newline>                    <span>It'S</span>\<newline>                    <span>50.0%</span>\<newline>                </div>\<newline>                <div class="feature-bar">\<newline>                    <div class="feature-fill" style="width: 50%"></div>\<newline>                </div>\<newline>            ''\<rparr>]\<close>
proof -
  have ord: "own_property_order [(''it's'', v)] = [(''it's'', v)]" for v :: jsnum
    by (rule own_property_order_no_index) (simp add: not_index_its)
  have el: \<open>feature_element ''it's'' (Fin (1 / 2))
       = \<lparr>el_className = ''feature'',
          el_innerHTML =
            ''\<newline>                <div class="feature-name">\<newline>                    <span>It'S</span>\<newline>                    <span>50.0%</span>\<newline>                </div>\<newline>                <div class="feature-bar">\<newline>                    <div class="feature-fill" style="width: 50%"></div>\<newline>                </div>\<newline>            ''\<rparr>\<close>
    unfolding feature_element_markup times_0_5 fixed_50 string_50 name_its
    by simp
  have ch: \<open>featuresContainer_children
        (fst (updateResults (JNum (Fin (1 / 2))) (number_object [(''it's'', Fin (1 / 2))])
               loaded_page))
       = [feature_element ''it's'' (Fin (1 / 2))]\<close>
    by (simp add: updateResults_typed ord)
  have ne: "''It'S'' \<noteq> ''It's''" by simp
  from name_its ne ch [unfolded el] show ?thesis by blast
qed

theorem render_shows_score_and_features_witness:
  \<open>(0::rat) \<le> 3 / 4 \<and> (3::rat) / 4 \<le> 1
   \<and> (0::rat) \<le> 1 / 2 \<and> (1::rat) / 2 \<le> 1
   \<and> list_all (\<lambda>c. is_word_char c \<or> c = CHR '' '') ''pitch_variance''
   \<and> 0 < length ''pitch_variance''
   \<and> scoreValue_textContent
        (fst (updateResults (JNum (Fin (3 / 4)))
               (number_object [(''pitch_variance'', Fin (3602879701896397 / 9007199254740992))])
               in_flight_page)) = ''0.75''
   \<and> scoreFill_width
        (fst (updateResults (JNum (Fin (3 / 4)))
               (number_object [(''pitch_variance'', Fin (3602879701896397 / 9007199254740992))])
               in_flight_page)) = ''75%''
   \<and> resultContainer_display
        (fst (updateResults (JNum (Fin (3 / 4)))
               (number_object [(''pitch_variance'', Fin (3602879701896397 / 9007199254740992))])
               in_flight_page)) = ''block''
   \<and> js_times (Fin (1 / 2)) (Fin 100) = Fin 50
   \<and> toFixed 1 (Fin 50) = ''50.0''
   \<and> displayName ''pitch_variance'' ! 0 = CHR ''P''
   \<and> scoreValue_textContent result_page = ''0.75''
   \<and> scoreFill_width result_page = ''75%''
   \<and> scoreInterpretation_textContent result_page = ''High Stress''
   \<and> featuresContainer_children result_page
       = [\<lparr>el_className = ''feature'',
           el_innerHTML =
             ''\<newline>                <div class="feature-name">\<newline>                    <span>Pitch Variance</span>\<newline>                    <span>40.0%</span>\<newline>                </div>\<newline>                <div class="feature-bar">\<newline>                    <div class="feature-fill" style="width: 40%"></div>\<newline>                </div>\<newline>            ''\<rparr>]
   \<and> resultContainer_display result_page = ''block''\<close>
proof -
  have r: \<open>result_page =
     in_flight_page
       \<lparr>scoreValue_textContent := ''0.75'',
        scoreFill_width := ''75%'',
        scoreInterpretation_textContent := ''High Stress'',
        featuresContainer_children :=
          [\<lparr>el_className = ''feature'',
            el_innerHTML =
              ''\<newline>                <div class="feature-name">\<newline>                    <span>Pitch Variance</span>\<newline>                    <span>40.0%</span>\<newline>                </div>\<newline>                <div class="feature-bar">\<newline>                    <div class="feature-fill" style="width: 40%"></div>\<newline>                </div>\<newline>            ''\<rparr>],
        resultContainer_display := ''block'',
        timers := 1,
        loading_display := ''none'',
        analyzeBtn_disabled := False,
        pending := 0\<rparr>\<close>
    unfolding result_page_eq literal_0_75 literal_0_4 fixed_0_75 times_0_75
      stress_label_finite feature_element_markup times_0_4 fixed_40 string_40
      name_pitch_variance set_width_percent_def string_75
    by simp
  have p: "displayName ''pitch_variance'' ! 0 = CHR ''P''"
    unfolding name_pitch_variance by simp
  have w: "list_all (\<lambda>c. is_word_char c \<or> c = CHR '' '') ''pitch_variance''"
    by (simp add: is_word_char_def is_digit_def is_lower_def is_upper_def code_unit_def)
  show ?thesis
    using render_shows_score_and_features
      [of "3 / 4" "[(''pitch_variance'', Fin (3602879701896397 / 9007199254740992))]"
        in_flight_page "1 / 2" "''pitch_variance''"]
      fixed_0_75 times_0_75 string_75 times_0_5 fixed_50 p w
    by (simp add: r)
qed

lemma index_one: "is_array_index ''1''"
  by (simp add: is_array_index_def is_digit_def code_unit_def digits_value_def radix_digit_def)

lemma not_index_b: "\<not> is_array_index ''b''"
  by (simp add: is_array_index_def is_digit_def code_unit_def)

lemma not_index_jitter: "\<not> is_array_index ''jitter''"
  by (simp add: is_array_index_def is_digit_def code_unit_def)

lemma markup_name_differs:
  "feature_markup (c # n) p w \<noteq> feature_markup (d # m) q v" if "c \<noteq> d"
  using that by (simp add: feature_markup_def)

text \<open>
  The claim as stated, that the features are iterated in insertion order, fails on a
  features object with the keys \<^verbatim>\<open>b\<close> and \<^verbatim>\<open>1\<close>, created in this order: the element
  for \<^verbatim>\<open>1\<close> comes first.
\<close>

theorem insertion_order_counterexample:
  "featuresContainer_children
     (fst (updateResults (JNum (Fin (1 / 2)))
            (number_object [(''b'', Fin (1 / 2)), (''1'', Fin (1 / 4))]) loaded_page))
   = [feature_element ''1'' (Fin (1 / 4)), feature_element ''b'' (Fin (1 / 2))]
   \<and> displayName ''1'' = ''1'' \<and> displayName ''b'' = ''B''
   \<and> [feature_element ''1'' (Fin (1 / 4)), feature_element ''b'' (Fin (1 / 2))]
      \<noteq> [feature_element ''b'' (Fin (1 / 2)), feature_element ''1'' (Fin (1 / 4))]"
proof -
  have ord: "own_property_order [(''b'', u), (''1'', v)] = [(''1'', v), (''b'', u)]"
    for u v :: jsnum
    by (simp add: own_property_order_def index_one not_index_b)
  have a: "featuresContainer_children
     (fst (updateResults (JNum (Fin (1 / 2)))
            (number_object [(''b'', Fin (1 / 2)), (''1'', Fin (1 / 4))]) loaded_page))
   = [feature_element ''1'' (Fin (1 / 4)), feature_element ''b'' (Fin (1 / 2))]"
    by (simp add: updateResults_typed ord)
  have n1: "displayName ''1'' = ''1''"
    by code_simp
  have nb: "displayName ''b'' = ''B''"
    by code_simp
  have "el_innerHTML (feature_element ''1'' (Fin (1 / 4)))
        \<noteq> el_innerHTML (feature_element ''b'' (Fin (1 / 2)))"
    unfolding feature_element_def n1 nb using markup_name_differs [of "CHR ''1''" "CHR ''B''"]
    by simp
  then have "feature_element ''1'' (Fin (1 / 4)) \<noteq> feature_element ''b'' (Fin (1 / 2))"
    by metis
  then have b: "[feature_element ''1'' (Fin (1 / 4)), feature_element ''b'' (Fin (1 / 2))]
      \<noteq> [feature_element ''b'' (Fin (1 / 2)), feature_element ''1'' (Fin (1 / 4))]"
    by simp
  from a n1 nb b show ?thesis by blast
qed

text \<open>
  C7, as the script has it. Rendering the same score and features twice leaves the page
  as rendering them once does, but for one more callback waiting in \<^verbatim>\<open>setTimeout\<close>, and
  ends the same way; this holds for any two values. The feature elements are built
  from the entries alone, one for each entry, in the order of \<^verbatim>\<open>Object.entries\<close>: the
  keys that are array indices first, ascending, then the other keys in insertion
  order; so in insertion order when no key is an array index.
\<close>

theorem render_is_idempotent:
  "(fst (updateResults score features (fst (updateResults score features s))))\<lparr>timers := 0\<rparr>
     = (fst (updateResults score features s))\<lparr>timers := 0\<rparr>
   \<and> snd (updateResults score features (fst (updateResults score features s)))
       = snd (updateResults score features s)
   \<and> featuresContainer_children (fst (updateResults (JNum n) (number_object fs) s))
       = map (\<lambda>kv. feature_element (fst kv) (snd kv)) (own_property_order fs)
   \<and> length (featuresContainer_children (fst (updateResults (JNum n) (number_object fs) s)))
       = length fs
   \<and> own_property_order fs
       = sort_key (\<lambda>kv. digits_value 10 (fst kv)) (filter (\<lambda>kv. is_array_index (fst kv)) fs)
         @ filter (\<lambda>kv. \<not> is_array_index (fst kv)) fs
   \<and> (list_all (\<lambda>kv. \<not> is_array_index (fst kv)) fs \<longrightarrow> own_property_order fs = fs)"
proof -
  have a: "featuresContainer_children (fst (updateResults (JNum n) (number_object fs) s))
       = map (\<lambda>kv. feature_element (fst kv) (snd kv)) (own_property_order fs)"
    by (simp add: updateResults_typed)
  then have b: "length (featuresContainer_children
                  (fst (updateResults (JNum n) (number_object fs) s))) = length fs"
    by (simp add: length_own_property_order)
  have c: "list_all (\<lambda>kv. \<not> is_array_index (fst kv)) fs \<longrightarrow> own_property_order fs = fs"
    using own_property_order_no_index by blast
  from render_twice [of score features s] a b c own_property_order_def [of fs]
  show ?thesis by blast
qed

theorem render_is_idempotent_witness:
  "list_all (\<lambda>kv. \<not> is_array_index (fst kv))
     [(''pitch_variance'', Fin (1 / 2)), (''jitter'', Fin (1 / 4))]
   \<and> own_property_order [(''pitch_variance'', Fin (1 / 2)), (''jitter'', Fin (1 / 4))]
       = [(''pitch_variance'', Fin (1 / 2)), (''jitter'', Fin (1 / 4))]
   \<and> featuresContainer_children
        (fst (updateResults (JNum (Fin (1 / 2)))
               (number_object [(''pitch_variance'', Fin (1 / 2)), (''jitter'', Fin (1 / 4))])
               result_page))
       = [feature_element ''pitch_variance'' (Fin (1 / 2)), feature_element ''jitter'' (Fin (1 / 4))]"
  using render_is_idempotent
    [of "JNum (Fin (1 / 2))"
      "number_object [(''pitch_variance'', Fin (1 / 2)), (''jitter'', Fin (1 / 4))]"
      result_page "Fin (1 / 2)" "[(''pitch_variance'', Fin (1 / 2)), (''jitter'', Fin (1 / 4))]"]
    not_index_pitch not_index_jitter
  by simp

end
